theory Spec2Isabelle
  imports Main
begin

section \<open>Strings\<close>

text \<open>
  The dashboard is TypeScript; its strings are sequences of UTF-16 code units. They are
  modelled as HOL strings: a character of the model is a code unit below 256, that is
  ASCII and the Latin-1 block. The helpers below are the string operations the mutation
  handlers and the mappers use: the regular-expression classes \<^verbatim>\<open>\w\<close> and
  \<^verbatim>\<open>\s\<close>, \<^verbatim>\<open>trim\<close>, \<^verbatim>\<open>toUpperCase\<close>, \<^verbatim>\<open>substring(0, n)\<close>,
  \<^verbatim>\<open>join\<close> and the decimal rendering of a number inside a template literal.

  \<^verbatim>\<open>\w\<close> is ASCII in JavaScript. The white space of \<^verbatim>\<open>trim\<close>, \<^verbatim>\<open>\s\<close> and
  \<^verbatim>\<open>parseInt\<close> is tab, line feed, vertical tab, form feed, carriage return, space,
  the no-break space U+00A0, and further code units from U+1680 on (U+2000 to U+200A,
  U+2028, U+2029, U+202F, U+205F, U+3000, U+FEFF); the first seven are all of them below
  256. \<^verbatim>\<open>toUpperCase\<close> is modelled on ASCII letters only.
\<close>

definition is_word :: "char \<Rightarrow> bool" where
  "is_word c \<longleftrightarrow>
     c \<in> set ''ABCDEFGHIJKLMNOPQRSTUVWXYZabcdefghijklmnopqrstuvwxyz0123456789_''"

definition is_space :: "char \<Rightarrow> bool" where
  "is_space c \<longleftrightarrow>
     c \<in> set [CHR 0x09, CHR 0x0A, CHR 0x0B, CHR 0x0C, CHR 0x0D, CHR 0x20, CHR 0xA0]"

text \<open>
  The white space of JavaScript as code units, for reference: \<open>is_space\<close> is its part
  below 256.
\<close>

definition js_white_space :: "nat list" where
  "js_white_space =
     [0x09, 0x0A, 0x0B, 0x0C, 0x0D, 0x20, 0xA0, 0x1680, 0x2000, 0x2001, 0x2002, 0x2003,
      0x2004, 0x2005, 0x2006, 0x2007, 0x2008, 0x2009, 0x200A, 0x2028, 0x2029, 0x202F,
      0x205F, 0x3000, 0xFEFF]"

definition trim :: "string \<Rightarrow> string" where
  "trim s = rev (dropWhile is_space (rev (dropWhile is_space s)))"

definition upper_char :: "char \<Rightarrow> char" where
  "upper_char c =
     (case map_of (zip ''abcdefghijklmnopqrstuvwxyz'' ''ABCDEFGHIJKLMNOPQRSTUVWXYZ'') c of
        Some u \<Rightarrow> u
      | None \<Rightarrow> c)"

definition toUpperCase :: "string \<Rightarrow> string" where
  "toUpperCase s = map upper_char s"

definition substring0 :: "nat \<Rightarrow> string \<Rightarrow> string" where
  "substring0 n s = take n s"

fun join :: "string \<Rightarrow> string list \<Rightarrow> string" where
  "join sep [] = []"
| "join sep [x] = x"
| "join sep (x # y # ys) = x @ sep @ join sep (y # ys)"

fun decimal :: "nat \<Rightarrow> string" where
  "decimal n =
     (if n < 10 then [''0123456789'' ! n]
      else decimal (n div 10) @ [''0123456789'' ! (n mod 10)])"

declare decimal.simps [simp del]

text \<open>
  \<^verbatim>\<open>x || undefined\<close> on an optional string: the empty string is falsy.
\<close>

definition or_undefined :: "string option \<Rightarrow> string option" where
  "or_undefined x = (case x of None \<Rightarrow> None | Some s \<Rightarrow> if s = [] then None else Some s)"

text \<open>
  \<^verbatim>\<open>title.match(/^PR\.(\w+)/)?.[1]\<close>: the word characters that follow a leading
  \<^verbatim>\<open>PR.\<close>, when there is at least one.
\<close>

definition match_PR :: "string \<Rightarrow> string option" where
  "match_PR title =
     (if take 3 title = ''PR.'' \<and> takeWhile is_word (drop 3 title) \<noteq> []
      then Some (takeWhile is_word (drop 3 title))
      else None)"

text \<open>
  \<^verbatim>\<open>title.replace(/^PR\.\w+\s*\|\s*/, '')\<close>. The classes \<^verbatim>\<open>\w\<close>, \<^verbatim>\<open>\s\<close> and the bar
  are disjoint, so the greedy match is the only one.
\<close>

definition strip_PR_prefix :: "string \<Rightarrow> string" where
  "strip_PR_prefix title =
     (case match_PR title of
        None \<Rightarrow> title
      | Some code \<Rightarrow>
          (case dropWhile is_space (drop (3 + length code) title) of
             [] \<Rightarrow> title
           | c # rest \<Rightarrow> if c = CHR ''|'' then dropWhile is_space rest else title))"

section \<open>Entities of the store (types.ts)\<close>

datatype priority = Critical | High | Medium | Low

datatype task_status = Pending | In_progress | Review | Completed

record task =
  t_id :: string
  t_title :: string
  t_description :: string
  assignedTo :: string
  assignedBy :: string
  t_priority :: priority
  t_status :: task_status
  deadline :: "string option"
  t_createdAt :: string
  tags :: "string list"
  projectId :: "string option"
  projectName :: "string option"
  projectShortCode :: "string option"
  parentTaskId :: "string option"

text \<open>The string literals of the two unions, as they appear in the source.\<close>

fun priority_token :: "priority \<Rightarrow> string" where
  "priority_token Critical = ''critical''"
| "priority_token High = ''high''"
| "priority_token Medium = ''medium''"
| "priority_token Low = ''low''"

fun status_token :: "task_status \<Rightarrow> string" where
  "status_token Pending = ''pending''"
| "status_token In_progress = ''in_progress''"
| "status_token Review = ''review''"
| "status_token Completed = ''completed''"

section \<open>Remote records and the mapper layer\<close>

text \<open>
  The rows the remote store returns. A field the mapper reads through \<^verbatim>\<open>||\<close> or
  \<^verbatim>\<open>?.\<close> is optional; ids, project titles and creation stamps are taken as present.
\<close>

record raw_agent =
  ra_id :: string
  ra_handle :: string
  ra_functional_name :: string
  ra_is_active :: bool
  ra_system_prompt :: "string option"
  ra_tool_access :: "string list option"

record raw_task =
  rt_id :: string
  rt_description :: "string option"
  rt_assigned_to :: "string option"
  rt_priority :: "int option"
  rt_status :: "string option"
  rt_completed_at :: "string option"
  rt_created_at :: string
  rt_project_id :: "string option"
  rt_parent_task_id :: "string option"

record raw_project =
  rp_id :: string
  rp_title :: string
  rp_description :: "string option"
  rp_status :: "string option"
  rp_dept_id :: "string option"
  rp_lead_agent_id :: "string option"
  rp_target_date :: "string option"
  rp_notes :: "string option"
  rp_created_at :: string
  rp_parent_project_id :: "string option"

text \<open>\<^verbatim>\<open>xs.find(x => x.id === key)\<close> with a key that may be undefined.\<close>

definition find_by :: "('a \<Rightarrow> string) \<Rightarrow> string option \<Rightarrow> 'a list \<Rightarrow> 'a option" where
  "find_by ident key xs =
     (case key of None \<Rightarrow> None | Some k \<Rightarrow> find (\<lambda>x. ident x = k) xs)"

text \<open>The two lookup tables of \<^verbatim>\<open>mapTask\<close>, with their \<^verbatim>\<open>||\<close> defaults.\<close>

definition priorityMap :: "(int \<times> priority) list" where
  "priorityMap = [(1, Critical), (2, High), (3, Medium), (4, Low), (5, Low)]"

definition statusMap :: "(string \<times> task_status) list" where
  "statusMap =
     [(''todo'', Pending), (''in_progress'', In_progress), (''done'', Completed),
      (''failed'', Review)]"

definition lookup_or :: "('k \<times> 'v) list \<Rightarrow> 'k option \<Rightarrow> 'v \<Rightarrow> 'v" where
  "lookup_or table key dflt =
     (case key of
        None \<Rightarrow> dflt
      | Some k \<Rightarrow> (case map_of table k of None \<Rightarrow> dflt | Some v \<Rightarrow> v))"

definition mapTask :: "raw_task \<Rightarrow> raw_agent list \<Rightarrow> raw_project list \<Rightarrow> task" where
  "mapTask t agents projects =
     (let assignedAgent = find_by ra_id (rt_assigned_to t) agents;
          project = find_by rp_id (rt_project_id t) projects;
          shortCode = (case project of None \<Rightarrow> None | Some p \<Rightarrow> match_PR (rp_title p))
      in \<lparr> t_id = rt_id t,
           t_title =
             (case or_undefined (map_option (substring0 80) (rt_description t)) of
                None \<Rightarrow> ''Untitled'' | Some s \<Rightarrow> s),
           t_description = (case rt_description t of None \<Rightarrow> [] | Some s \<Rightarrow> s),
           assignedTo =
             (case assignedAgent of
                None \<Rightarrow> ''tiger''
              | Some a \<Rightarrow> if ra_handle a = ''@CEA'' then ''cea'' else ra_id a),
           assignedBy = ''cea'',
           t_priority = lookup_or priorityMap (rt_priority t) Medium,
           t_status = lookup_or statusMap (rt_status t) Pending,
           deadline = or_undefined (rt_completed_at t),
           t_createdAt = rt_created_at t,
           tags = [],
           projectId = or_undefined (rt_project_id t),
           projectName = map_option (\<lambda>p. strip_PR_prefix (rp_title p)) project,
           projectShortCode = or_undefined shortCode,
           parentTaskId = or_undefined (rt_parent_task_id t) \<rparr>)"

text \<open>
  The table of \<^verbatim>\<open>handleUpdateTaskStatus\<close> that serialises a local status for the
  remote store: \<^verbatim>\<open>statusMap[status] || status\<close>.
\<close>

definition writeStatusMap :: "(string \<times> string) list" where
  "writeStatusMap =
     [(''pending'', ''todo''), (''in_progress'', ''in_progress''),
      (''review'', ''in_progress''), (''completed'', ''done'')]"

definition remoteStatus :: "task_status \<Rightarrow> string" where
  "remoteStatus status =
     lookup_or writeStatusMap (Some (status_token status)) (status_token status)"

section \<open>The other entities\<close>

text \<open>
  Project, goal and feature-request statuses are kept as the strings the source passes
  through unchecked (\<^verbatim>\<open>p.status || 'active'\<close>, \<^verbatim>\<open>{...fr, ...updates}\<close>). Emoji
  glyphs are written as ASCII names between colons.
\<close>

record project =
  p_id :: string
  p_title :: string
  shortCode :: string
  p_description :: "string option"
  p_status :: string
  department :: string
  departmentId :: "string option"
  leadAgentId :: "string option"
  p_targetDate :: "string option"
  taskCount :: nat
  completedTaskCount :: nat
  p_notes :: "string option"
  p_createdAt :: string
  parentProjectId :: "string option"

record department_row =
  d_id :: string
  d_name :: string

record initiative =
  i_name :: string
  i_status :: string
  i_due :: string

record goal =
  g_id :: string
  g_title :: string
  g_description :: "string option"
  progress :: int
  g_status :: string
  ownerAgentId :: "string option"
  ownerName :: string
  ownerEmoji :: string
  g_targetDate :: "string option"
  initiatives :: "initiative list"

record feature_request =
  fr_id :: string
  fr_title :: string
  fr_description :: "string option"
  screenshotUrl :: "string option"
  sourceView :: "string option"
  fr_status :: string
  fr_priority :: string
  fr_createdAt :: string
  fr_updatedAt :: string

datatype agent_status = Active | Idle | Working | Error | Spawning

record agent =
  a_id :: string
  a_name :: string
  a_role :: string
  a_emoji :: string
  a_status :: agent_status
  a_description :: string
  tasksCompleted :: nat
  currentTask :: "string option"
  uptime :: string
  metrics :: "(string \<times> int) list"

datatype activity_type = Task_activity | Decision | Report | Spawn | Alert

record activity_item =
  act_id :: string
  act_agent :: string
  agentEmoji :: string
  action :: string
  detail :: string
  timestamp :: string
  act_type :: activity_type

text \<open>
  \<^verbatim>\<open>mapProject\<close>. The short code falls back to the first four characters of the
  title as they are; the last \<^verbatim>\<open>|| ''\<close> only matters for an empty title.
\<close>

definition mapProject :: "raw_project \<Rightarrow> department_row list \<Rightarrow> raw_task list \<Rightarrow> project" where
  "mapProject p departments tasks0 =
     (let dept = find_by d_id (rp_dept_id p) departments;
          projectTasks = filter (\<lambda>t. rt_project_id t = Some (rp_id p)) tasks0;
          completedTasks = filter (\<lambda>t. rt_status t = Some ''done'') projectTasks;
          shortCode0 =
            (case match_PR (rp_title p) of
               Some code \<Rightarrow> code
             | None \<Rightarrow> substring0 4 (rp_title p))
      in \<lparr> p_id = rp_id p,
           p_title = rp_title p,
           shortCode = shortCode0,
           p_description = or_undefined (rp_description p),
           p_status = (case or_undefined (rp_status p) of None \<Rightarrow> ''active'' | Some s \<Rightarrow> s),
           department =
             (case or_undefined (map_option d_name dept) of None \<Rightarrow> ''Unknown'' | Some n \<Rightarrow> n),
           departmentId = rp_dept_id p,
           leadAgentId = rp_lead_agent_id p,
           p_targetDate = or_undefined (rp_target_date p),
           taskCount = length projectTasks,
           completedTaskCount = length completedTasks,
           p_notes = or_undefined (rp_notes p),
           p_createdAt = rp_created_at p,
           parentProjectId = or_undefined (rp_parent_project_id p) \<rparr>)"

record raw_goal =
  rg_id :: string
  rg_title :: string
  rg_description :: "string option"
  rg_progress :: "int option"
  rg_status :: "string option"
  rg_owner_agent_id :: "string option"
  rg_owner_name :: "string option"
  rg_target_date :: "string option"
  rg_initiatives :: "initiative list option"

definition goalEmojiMap :: "(string \<times> string) list" where
  "goalEmojiMap =
     [(''@CEA'', '':brain:''), (''@Chief_of_Staff'', '':clipboard:''),
      (''@Editor_in_Chief'', '':writing_hand:''), (''@Growth_Lead'', '':chart_up:''),
      (''@VP_of_Engineering'', '':gear:'')]"

text \<open>\<^verbatim>\<open>mapGoal\<close>: \<^verbatim>\<open>g.progress || 0\<close> passes any number through.\<close>

definition mapGoal :: "raw_goal \<Rightarrow> raw_agent list \<Rightarrow> goal" where
  "mapGoal g agents0 =
     (let ownerAgent = find_by ra_id (rg_owner_agent_id g) agents0
      in \<lparr> g_id = rg_id g,
           g_title = rg_title g,
           g_description = or_undefined (rg_description g),
           progress = (case rg_progress g of None \<Rightarrow> 0 | Some n \<Rightarrow> n),
           g_status = (case or_undefined (rg_status g) of None \<Rightarrow> ''on-track'' | Some s \<Rightarrow> s),
           ownerAgentId = rg_owner_agent_id g,
           ownerName =
             (case or_undefined (map_option ra_functional_name ownerAgent) of
                Some n \<Rightarrow> n
              | None \<Rightarrow>
                  (case or_undefined (rg_owner_name g) of
                     Some n \<Rightarrow> n
                   | None \<Rightarrow> ''Unassigned'')),
           ownerEmoji =
             (case ownerAgent of
                None \<Rightarrow> '':dart:''
              | Some a \<Rightarrow> lookup_or goalEmojiMap (Some (ra_handle a)) '':robot:''),
           g_targetDate = or_undefined (rg_target_date g),
           initiatives = (case rg_initiatives g of None \<Rightarrow> [] | Some xs \<Rightarrow> xs) \<rparr>)"

definition agentEmojiMap :: "(string \<times> string) list" where
  "agentEmojiMap =
     [(''@CEA'', '':brain:''), (''@Chief_of_Staff'', '':clipboard:''),
      (''@Editor_in_Chief'', '':writing_hand:''), (''@Growth_Lead'', '':chart_up:''),
      (''@VP_of_Engineering'', '':gear:''), (''@Meeting_Scribe'', '':memo:''),
      (''@Clip_Extractor'', '':clapper:''), (''@Health_Monitor'', '':green_heart:''),
      (''@Workflow_Builder'', '':wrench:''), (''@Project_Lead'', '':dart:'')]"

text \<open>\<^verbatim>\<open>mapAgent\<close>.\<close>

definition mapAgent :: "raw_agent \<Rightarrow> agent" where
  "mapAgent a =
     \<lparr> a_id = ra_id a,
       a_name = ra_functional_name a,
       a_role = ra_handle a,
       a_emoji = lookup_or agentEmojiMap (Some (ra_handle a)) '':robot:'',
       a_status = (if ra_is_active a then Active else Idle),
       a_description =
         (case or_undefined (map_option (substring0 200) (ra_system_prompt a)) of
            None \<Rightarrow> [] | Some d \<Rightarrow> d),
       tasksCompleted = 0,
       currentTask = None,
       uptime = ''live'',
       metrics =
         (case ra_tool_access a of
            None \<Rightarrow> []
          | Some tools \<Rightarrow> [(''tools'', int (length tools))]) \<rparr>"

section \<open>The entity store\<close>

text \<open>
  The \<^verbatim>\<open>useState\<close> cells of \<^verbatim>\<open>AuthenticatedApp\<close> that the mutation handlers read
  and write.
\<close>

record store =
  tasks :: "task list"
  projects :: "project list"
  goals :: "goal list"
  featureRequests :: "feature_request list"
  agents :: "agent list"
  activity :: "activity_item list"
  departments :: "department_row list"

section \<open>Partial updates\<close>

text \<open>
  A \<^verbatim>\<open>Partial<X>\<close> object carries any subset of the fields of \<^verbatim>\<open>X\<close>. \<open>None\<close> is
  an absent key. On an optional field the key may be present with the value
  \<^verbatim>\<open>undefined\<close>, which the spread \<^verbatim>\<open>{...x, ...updates}\<close> copies: that is
  \<open>Some None\<close>.
\<close>

definition patch_field :: "'a option \<Rightarrow> 'a \<Rightarrow> 'a" where
  "patch_field u old = (case u of None \<Rightarrow> old | Some v \<Rightarrow> v)"

definition defined :: "'a option option \<Rightarrow> 'a option" where
  "defined u = (case u of None \<Rightarrow> None | Some v \<Rightarrow> v)"

definition truthy :: "string option \<Rightarrow> bool" where
  "truthy u \<longleftrightarrow> (case u of None \<Rightarrow> False | Some s \<Rightarrow> s \<noteq> [])"

record task_patch =
  tp_id :: "string option"
  tp_title :: "string option"
  tp_description :: "string option"
  tp_assignedTo :: "string option"
  tp_assignedBy :: "string option"
  tp_priority :: "priority option"
  tp_status :: "task_status option"
  tp_deadline :: "string option option"
  tp_createdAt :: "string option"
  tp_tags :: "string list option"
  tp_projectId :: "string option option"
  tp_projectName :: "string option option"
  tp_projectShortCode :: "string option option"
  tp_parentTaskId :: "string option option"

definition apply_task_patch :: "task_patch \<Rightarrow> task \<Rightarrow> task" where
  "apply_task_patch u t =
     \<lparr> t_id = patch_field (tp_id u) (t_id t),
       t_title = patch_field (tp_title u) (t_title t),
       t_description = patch_field (tp_description u) (t_description t),
       assignedTo = patch_field (tp_assignedTo u) (assignedTo t),
       assignedBy = patch_field (tp_assignedBy u) (assignedBy t),
       t_priority = patch_field (tp_priority u) (t_priority t),
       t_status = patch_field (tp_status u) (t_status t),
       deadline = patch_field (tp_deadline u) (deadline t),
       t_createdAt = patch_field (tp_createdAt u) (t_createdAt t),
       tags = patch_field (tp_tags u) (tags t),
       projectId = patch_field (tp_projectId u) (projectId t),
       projectName = patch_field (tp_projectName u) (projectName t),
       projectShortCode = patch_field (tp_projectShortCode u) (projectShortCode t),
       parentTaskId = patch_field (tp_parentTaskId u) (parentTaskId t) \<rparr>"

definition no_task_patch :: task_patch where
  "no_task_patch =
     \<lparr> tp_id = None, tp_title = None, tp_description = None, tp_assignedTo = None,
       tp_assignedBy = None, tp_priority = None, tp_status = None, tp_deadline = None,
       tp_createdAt = None, tp_tags = None, tp_projectId = None, tp_projectName = None,
       tp_projectShortCode = None, tp_parentTaskId = None \<rparr>"

record project_patch =
  pp_id :: "string option"
  pp_title :: "string option"
  pp_shortCode :: "string option"
  pp_description :: "string option option"
  pp_status :: "string option"
  pp_department :: "string option"
  pp_departmentId :: "string option option"
  pp_leadAgentId :: "string option option"
  pp_targetDate :: "string option option"
  pp_taskCount :: "nat option"
  pp_completedTaskCount :: "nat option"
  pp_notes :: "string option option"
  pp_createdAt :: "string option"
  pp_parentProjectId :: "string option option"

definition apply_project_patch :: "project_patch \<Rightarrow> project \<Rightarrow> project" where
  "apply_project_patch u p =
     \<lparr> p_id = patch_field (pp_id u) (p_id p),
       p_title = patch_field (pp_title u) (p_title p),
       shortCode = patch_field (pp_shortCode u) (shortCode p),
       p_description = patch_field (pp_description u) (p_description p),
       p_status = patch_field (pp_status u) (p_status p),
       department = patch_field (pp_department u) (department p),
       departmentId = patch_field (pp_departmentId u) (departmentId p),
       leadAgentId = patch_field (pp_leadAgentId u) (leadAgentId p),
       p_targetDate = patch_field (pp_targetDate u) (p_targetDate p),
       taskCount = patch_field (pp_taskCount u) (taskCount p),
       completedTaskCount = patch_field (pp_completedTaskCount u) (completedTaskCount p),
       p_notes = patch_field (pp_notes u) (p_notes p),
       p_createdAt = patch_field (pp_createdAt u) (p_createdAt p),
       parentProjectId = patch_field (pp_parentProjectId u) (parentProjectId p) \<rparr>"

record goal_patch =
  gp_id :: "string option"
  gp_title :: "string option"
  gp_description :: "string option option"
  gp_progress :: "int option"
  gp_status :: "string option"
  gp_ownerAgentId :: "string option option"
  gp_ownerName :: "string option"
  gp_ownerEmoji :: "string option"
  gp_targetDate :: "string option option"
  gp_initiatives :: "initiative list option"

definition apply_goal_patch :: "goal_patch \<Rightarrow> goal \<Rightarrow> goal" where
  "apply_goal_patch u g =
     \<lparr> g_id = patch_field (gp_id u) (g_id g),
       g_title = patch_field (gp_title u) (g_title g),
       g_description = patch_field (gp_description u) (g_description g),
       progress = patch_field (gp_progress u) (progress g),
       g_status = patch_field (gp_status u) (g_status g),
       ownerAgentId = patch_field (gp_ownerAgentId u) (ownerAgentId g),
       ownerName = patch_field (gp_ownerName u) (ownerName g),
       ownerEmoji = patch_field (gp_ownerEmoji u) (ownerEmoji g),
       g_targetDate = patch_field (gp_targetDate u) (g_targetDate g),
       initiatives = patch_field (gp_initiatives u) (initiatives g) \<rparr>"

definition no_goal_patch :: goal_patch where
  "no_goal_patch =
     \<lparr> gp_id = None, gp_title = None, gp_description = None, gp_progress = None,
       gp_status = None, gp_ownerAgentId = None, gp_ownerName = None, gp_ownerEmoji = None,
       gp_targetDate = None, gp_initiatives = None \<rparr>"

text \<open>The update objects of the feature-request and agent handlers have four keys each.\<close>

record fr_updates =
  fu_status :: "string option"
  fu_priority :: "string option"
  fu_title :: "string option"
  fu_description :: "string option"

record agent_updates =
  au_system_prompt :: "string option"
  au_functional_name :: "string option"
  au_tool_access :: "string list option"
  au_is_active :: "bool option"

text \<open>The argument objects of the create handlers.\<close>

record task_data =
  td_title :: string
  td_description :: string
  td_priority :: priority
  td_assignedTo :: string
  td_projectId :: "string option"
  td_parentTaskId :: "string option"

record goal_data =
  gd_title :: string
  gd_description :: "string option"
  gd_ownerAgentId :: "string option"
  gd_targetDate :: "string option"

record project_data =
  pd_title :: string
  pd_deptId :: "string option"
  pd_description :: "string option"
  pd_parentProjectId :: "string option"

record fr_data =
  fd_title :: string
  fd_description :: "string option"
  fd_screenshotUrl :: "string option"
  fd_sourceView :: "string option"
  fd_priority :: "string option"

section \<open>Handlers as programs\<close>

text \<open>
  A mutation handler is an \<^verbatim>\<open>async\<close> function: it calls state setters, may
  \<^verbatim>\<open>await\<close> one call of the remote gateway, and goes on with the settled result. The
  model keeps that order. A program is a sequence of setter calls; at an \<^verbatim>\<open>await\<close> it
  stops with the request it issued and a continuation for the outcome. Every setter is
  called with an updater function (\<^verbatim>\<open>setTasks(prev => ...)\<close>), which acts on the store
  as it is when the call is reached.
\<close>

datatype request =
    Api_updateTaskStatus string string
  | Api_updateTaskFull string "string option" "int option" "string option" "string option"
  | Api_createTask string int "string option" "string option" "string option"
  | Api_deleteTask string
  | Api_updateProject string "string option" "string option" "string option" "string option"
  | Api_updateGoal string "int option" "string option" "string option" "string option"
      "string option"
  | Api_createGoal string "string option" "string option" "string option" string
  | Api_deleteGoal string
  | Api_createProject string "string option" "string option" "string option"
  | Api_deleteProject string
  | Api_createFeatureRequest string "string option" "string option" "string option"
      "string option"
  | Api_updateFeatureRequest string fr_updates
  | Api_deleteFeatureRequest string
  | Api_updateAgent string agent_updates
  | Api_spawnAgent string string string

text \<open>
  What a gateway call settles to: it resolves, with or without a row in
  \<^verbatim>\<open>result.data\<close>, or it throws. A row has the columns some handler reads: the id
  and the two stamps (the create handlers), and the agent columns (the spawn handler,
  through \<^verbatim>\<open>mapAgent\<close>).
\<close>

record remote_row =
  row_id :: string
  row_created_at :: string
  row_updated_at :: string
  row_handle :: string
  row_functional_name :: string
  row_is_active :: bool
  row_system_prompt :: "string option"
  row_tool_access :: "string list option"

definition row_agent :: "remote_row \<Rightarrow> raw_agent" where
  "row_agent row =
     \<lparr> ra_id = row_id row, ra_handle = row_handle row,
       ra_functional_name = row_functional_name row, ra_is_active = row_is_active row,
       ra_system_prompt = row_system_prompt row, ra_tool_access = row_tool_access row \<rparr>"

datatype outcome = Resolved "remote_row option" | Rejected

datatype update =
    SetTasks "task list \<Rightarrow> task list"
  | SetProjects "project list \<Rightarrow> project list"
  | SetGoals "goal list \<Rightarrow> goal list"
  | SetFeatureRequests "feature_request list \<Rightarrow> feature_request list"
  | SetAgents "agent list \<Rightarrow> agent list"
  | SetActivity "activity_item list \<Rightarrow> activity_item list"

fun apply_update :: "update \<Rightarrow> store \<Rightarrow> store" where
  "apply_update (SetTasks f) s = s\<lparr>tasks := f (tasks s)\<rparr>"
| "apply_update (SetProjects f) s = s\<lparr>projects := f (projects s)\<rparr>"
| "apply_update (SetGoals f) s = s\<lparr>goals := f (goals s)\<rparr>"
| "apply_update (SetFeatureRequests f) s = s\<lparr>featureRequests := f (featureRequests s)\<rparr>"
| "apply_update (SetAgents f) s = s\<lparr>agents := f (agents s)\<rparr>"
| "apply_update (SetActivity f) s = s\<lparr>activity := f (activity s)\<rparr>"

datatype prog =
    Done
  | Do update prog
  | ConsoleError prog
  | Await request "outcome \<Rightarrow> prog"
  | SetTimeout nat prog

text \<open>The observable steps of a run, in the order they happen.\<close>

datatype collection =
  Tasks | Projects | Goals | FeatureRequests | Agents | Activity

fun collection_of :: "update \<Rightarrow> collection" where
  "collection_of (SetTasks f) = Tasks"
| "collection_of (SetProjects f) = Projects"
| "collection_of (SetGoals f) = Goals"
| "collection_of (SetFeatureRequests f) = FeatureRequests"
| "collection_of (SetAgents f) = Agents"
| "collection_of (SetActivity f) = Activity"

datatype event =
    Commit collection
  | Logged
  | Issued request
  | Settled outcome
  | Scheduled nat
  | Fired

text \<open>
  \<open>start\<close> runs the synchronous part of a handler: up to its first \<^verbatim>\<open>await\<close>, where
  the request is issued and control goes back to the event loop, or to the end. A
  \<^verbatim>\<open>setTimeout\<close> is the last statement of the one handler that has it: the callback
  is scheduled and the handler ends.
\<close>

datatype suspension =
    Finished
  | Waiting request "outcome \<Rightarrow> prog"
  | Sleeping nat prog

primrec start :: "prog \<Rightarrow> store \<Rightarrow> store \<times> event list \<times> suspension" where
  "start Done s = (s, [], Finished)"
| "start (Do u p) s =
     (case start p (apply_update u s) of
        (s', tr, k) \<Rightarrow> (s', Commit (collection_of u) # tr, k))"
| "start (ConsoleError p) s = (case start p s of (s', tr, k) \<Rightarrow> (s', Logged # tr, k))"
| "start (Await r k) s = (s, [Issued r], Waiting r k)"
| "start (SetTimeout ms callback) s = (s, [Scheduled ms], Sleeping ms callback)"

text \<open>
  \<open>run\<close> is a handler from its call to its end when nothing else touches the store in
  between; every \<^verbatim>\<open>await\<close> settles to the given outcome, and a scheduled callback
  fires.
\<close>

primrec run :: "prog \<Rightarrow> outcome \<Rightarrow> store \<Rightarrow> store \<times> event list" where
  "run Done out s = (s, [])"
| "run (Do u p) out s =
     (case run p out (apply_update u s) of (s', tr) \<Rightarrow> (s', Commit (collection_of u) # tr))"
| "run (ConsoleError p) out s = (case run p out s of (s', tr) \<Rightarrow> (s', Logged # tr))"
| "run (Await r k) out s =
     (case run (k out) out s of (s', tr) \<Rightarrow> (s', Issued r # Settled out # tr))"
| "run (SetTimeout ms callback) out s =
     (case run callback out s of (s', tr) \<Rightarrow> (s', Scheduled ms # Fired # tr))"

text \<open>
  \<open>resume\<close> is the part of a suspended handler that runs once its call has settled (or
  its timer has fired), on the store as it is by then.
\<close>

definition resume :: "suspension \<Rightarrow> outcome \<Rightarrow> store \<Rightarrow> store \<times> event list" where
  "resume w out s =
     (case w of
        Finished \<Rightarrow> (s, [])
      | Waiting r k \<Rightarrow> (case run (k out) out s of (s', tr) \<Rightarrow> (s', Settled out # tr))
      | Sleeping ms callback \<Rightarrow>
          (case run callback out s of (s', tr) \<Rightarrow> (s', Fired # tr)))"

text \<open>
  The two shapes the handlers share. \<open>live_call\<close> is
  \<^verbatim>\<open>if (isLive) { try { await api.f(...) } catch (e) { console.error(...) } }\<close> followed by
  the rest of the handler; \<open>live_create\<close> is the same with the reconciliation of the
  temporary id inside the \<^verbatim>\<open>try\<close>, under \<^verbatim>\<open>if (result.data?.[0])\<close>.
\<close>

definition live_call :: "bool \<Rightarrow> request \<Rightarrow> prog \<Rightarrow> prog" where
  "live_call isLive r rest =
     (if isLive
      then Await r (\<lambda>out. case out of Resolved row \<Rightarrow> rest | Rejected \<Rightarrow> ConsoleError rest)
      else rest)"

definition live_create :: "bool \<Rightarrow> request \<Rightarrow> (remote_row \<Rightarrow> update) \<Rightarrow> prog \<Rightarrow> prog" where
  "live_create isLive r reconcile rest =
     (if isLive
      then Await r (\<lambda>out.
             case out of
               Resolved None \<Rightarrow> rest
             | Resolved (Some row) \<Rightarrow> Do (reconcile row) rest
             | Rejected \<Rightarrow> ConsoleError rest)
      else rest)"

text \<open>
  The clock readings a handler takes: \<^verbatim>\<open>Date.now()\<close> and
  \<^verbatim>\<open>new Date().toISOString()\<close> while the optimistic entity is built, and
  \<^verbatim>\<open>Date.now()\<close> when the activity item is built.
\<close>

record clock =
  now_ms :: nat
  now_iso :: string
  later_ms :: nat

definition activity_entry :: "clock \<Rightarrow> string \<Rightarrow> string \<Rightarrow> activity_item" where
  "activity_entry clk act det =
     \<lparr> act_id = ''a'' @ decimal (later_ms clk), act_agent = ''Tiger'',
       agentEmoji = '':tiger:'', action = act, detail = det,
       timestamp = ''Just now'', act_type = Task_activity \<rparr>"

definition log_activity :: "clock \<Rightarrow> string \<Rightarrow> string \<Rightarrow> prog" where
  "log_activity clk act det = Do (SetActivity ((#) (activity_entry clk act det))) Done"

definition temp_id :: "clock \<Rightarrow> string" where
  "temp_id clk = ''temp-'' @ decimal (now_ms clk)"

text \<open>
  A whole number inside a template literal. JavaScript switches to exponent form from
  \<open>10\<^sup>2\<^sup>1\<close> on; below that the rendering is the decimal one.
\<close>

definition show_int :: "int \<Rightarrow> string" where
  "show_int n = (if n < 0 then ''-'' @ decimal (nat (- n)) else decimal (nat n))"

section \<open>The task handlers\<close>

text \<open>
  Each handler takes \<open>isLive\<close> and \<open>snap\<close>, the state its closure captured at the last
  render (\<^verbatim>\<open>tasks\<close>, \<^verbatim>\<open>projects\<close>, \<^verbatim>\<open>goals\<close>, \<^verbatim>\<open>agents\<close>,
  \<^verbatim>\<open>departments\<close>), which the lookups outside the updater functions read. The
  arrow of the source's detail strings is written \<open>->\<close>.
\<close>

definition find_task :: "string \<Rightarrow> task list \<Rightarrow> task option" where
  "find_task taskId ts = find (\<lambda>t. t_id t = taskId) ts"

definition handleUpdateTaskStatus :: "bool \<Rightarrow> store \<Rightarrow> clock \<Rightarrow> string \<Rightarrow> task_status \<Rightarrow> prog" where
  "handleUpdateTaskStatus isLive snap clk taskId status =
     live_call isLive (Api_updateTaskStatus taskId (remoteStatus status))
       (Do (SetTasks (map (\<lambda>t. if t_id t = taskId then t\<lparr>t_status := status\<rparr> else t)))
          (case find_task taskId (tasks snap) of
             None \<Rightarrow> Done
           | Some task \<Rightarrow>
               log_activity clk
                 (if status = Completed then ''Completed''
                  else if status = In_progress then ''Started'' else ''Updated'')
                 (t_title task)))"

fun priority_code :: "priority \<Rightarrow> int" where
  "priority_code Critical = 1"
| "priority_code High = 2"
| "priority_code Medium = 3"
| "priority_code Low = 4"

definition task_changes :: "task_patch \<Rightarrow> string list" where
  "task_changes updates =
     (if truthy (tp_title updates) then [''title''] else [])
     @ (if truthy (tp_description updates) then [''description''] else [])
     @ (case tp_priority updates of
          None \<Rightarrow> []
        | Some p \<Rightarrow> [''priority -> '' @ priority_token p])
     @ (if truthy (tp_assignedTo updates) then [''assignee''] else [])
     @ (if defined (tp_projectId updates) \<noteq> None then [''project''] else [])"

definition handleUpdateTask :: "bool \<Rightarrow> store \<Rightarrow> clock \<Rightarrow> string \<Rightarrow> task_patch \<Rightarrow> prog" where
  "handleUpdateTask isLive snap clk taskId updates =
     Do (SetTasks (map (\<lambda>t. if t_id t = taskId then apply_task_patch updates t else t)))
       (live_call isLive
          (Api_updateTaskFull taskId
             (if truthy (tp_title updates) then tp_title updates else tp_description updates)
             (map_option priority_code (tp_priority updates))
             (tp_assignedTo updates)
             (defined (tp_projectId updates)))
          (case find_task taskId (tasks snap) of
             None \<Rightarrow> Done
           | Some task \<Rightarrow>
               log_activity clk ''Updated task''
                 (t_title task @ '': '' @ join '', '' (task_changes updates))))"

definition tempTask :: "store \<Rightarrow> clock \<Rightarrow> task_data \<Rightarrow> task" where
  "tempTask snap clk taskData =
     (let project = find_by p_id (td_projectId taskData) (projects snap)
      in \<lparr> t_id = temp_id clk,
           t_title = td_title taskData,
           t_description = td_description taskData,
           assignedTo = td_assignedTo taskData,
           assignedBy = ''tiger'',
           t_priority = td_priority taskData,
           t_status = Pending,
           deadline = None,
           t_createdAt = now_iso clk,
           tags = [],
           projectId = td_projectId taskData,
           projectName = map_option (\<lambda>p. strip_PR_prefix (p_title p)) project,
           projectShortCode = map_option shortCode project,
           parentTaskId = td_parentTaskId taskData \<rparr>)"

definition handleCreateTask :: "bool \<Rightarrow> store \<Rightarrow> clock \<Rightarrow> task_data \<Rightarrow> prog" where
  "handleCreateTask isLive snap clk taskData =
     (let temp = tempTask snap clk taskData
      in Do (SetTasks ((#) temp))
           (live_create isLive
              (Api_createTask (td_description taskData) (priority_code (td_priority taskData))
                 (if td_assignedTo taskData = ''tiger'' then None
                  else Some (td_assignedTo taskData))
                 (td_projectId taskData) (td_parentTaskId taskData))
              (\<lambda>row. SetTasks
                 (map (\<lambda>t. if t_id t = t_id temp then temp\<lparr>t_id := row_id row\<rparr> else t)))
              (log_activity clk ''Created task'' (td_title taskData))))"

definition handleDeleteTask :: "bool \<Rightarrow> store \<Rightarrow> clock \<Rightarrow> string \<Rightarrow> prog" where
  "handleDeleteTask isLive snap clk taskId =
     (let task = find_task taskId (tasks snap)
      in Do (SetTasks (filter (\<lambda>t. t_id t \<noteq> taskId)))
           (live_call isLive (Api_deleteTask taskId)
              (case task of
                 None \<Rightarrow> Done
               | Some t \<Rightarrow> log_activity clk ''Deleted task'' (t_title t))))"

section \<open>The project handlers\<close>

definition find_project :: "string \<Rightarrow> project list \<Rightarrow> project option" where
  "find_project projectId0 ps = find (\<lambda>p. p_id p = projectId0) ps"

definition project_changes :: "project_patch \<Rightarrow> string list" where
  "project_changes updates =
     (case pp_status updates of
        None \<Rightarrow> []
      | Some st \<Rightarrow> if st = [] then [] else [''status -> '' @ st])
     @ (if defined (pp_description updates) \<noteq> None then [''description''] else [])
     @ (if defined (pp_notes updates) \<noteq> None then [''notes''] else [])
     @ (if defined (pp_targetDate updates) \<noteq> None then [''target date''] else [])"

definition handleUpdateProject :: "bool \<Rightarrow> store \<Rightarrow> clock \<Rightarrow> string \<Rightarrow> project_patch \<Rightarrow> prog" where
  "handleUpdateProject isLive snap clk projectId0 updates =
     Do (SetProjects
           (map (\<lambda>p. if p_id p = projectId0 then apply_project_patch updates p else p)))
       (live_call isLive
          (Api_updateProject projectId0 (pp_status updates) (defined (pp_description updates))
             (defined (pp_targetDate updates)) (defined (pp_notes updates)))
          (case find_project projectId0 (projects snap) of
             None \<Rightarrow> Done
           | Some project \<Rightarrow>
               log_activity clk ''Updated project''
                 (shortCode project @ '': '' @ join '', '' (project_changes updates))))"

definition tempProject :: "store \<Rightarrow> clock \<Rightarrow> project_data \<Rightarrow> project" where
  "tempProject snap clk data =
     (let dept = find_by d_id (pd_deptId data) (departments snap);
          parentProject =
            (if truthy (pd_parentProjectId data)
             then find_by p_id (pd_parentProjectId data) (projects snap)
             else None)
      in \<lparr> p_id = temp_id clk,
           p_title = pd_title data,
           shortCode =
             (case match_PR (pd_title data) of
                Some code \<Rightarrow> code
              | None \<Rightarrow> toUpperCase (substring0 4 (pd_title data))),
           p_description = pd_description data,
           p_status = ''active'',
           department =
             (case or_undefined (map_option d_name dept) of
                Some n \<Rightarrow> n
              | None \<Rightarrow>
                  (case or_undefined (map_option department parentProject) of
                     Some n \<Rightarrow> n
                   | None \<Rightarrow> ''Unknown'')),
           departmentId =
             (case or_undefined (pd_deptId data) of
                Some d \<Rightarrow> Some d
              | None \<Rightarrow> (case parentProject of None \<Rightarrow> None | Some pp \<Rightarrow> departmentId pp)),
           leadAgentId = None,
           p_targetDate = None,
           taskCount = 0,
           completedTaskCount = 0,
           p_notes = None,
           p_createdAt = now_iso clk,
           parentProjectId = pd_parentProjectId data \<rparr>)"

definition handleCreateProject :: "bool \<Rightarrow> store \<Rightarrow> clock \<Rightarrow> project_data \<Rightarrow> prog" where
  "handleCreateProject isLive snap clk data =
     (let temp = tempProject snap clk data
      in Do (SetProjects ((#) temp))
           (live_create isLive
              (Api_createProject (pd_title data) (pd_deptId data) (pd_description data)
                 (pd_parentProjectId data))
              (\<lambda>row. SetProjects
                 (map (\<lambda>p. if p_id p = p_id temp then temp\<lparr>p_id := row_id row\<rparr> else p)))
              (log_activity clk ''Created project'' (pd_title data))))"

definition handleDeleteProject :: "bool \<Rightarrow> store \<Rightarrow> clock \<Rightarrow> string \<Rightarrow> prog" where
  "handleDeleteProject isLive snap clk projectId0 =
     (let project = find_project projectId0 (projects snap)
      in Do (SetProjects
               (\<lambda>prev. map (\<lambda>p. if parentProjectId p = Some projectId0
                                then p\<lparr>parentProjectId := None\<rparr> else p)
                          (filter (\<lambda>p. p_id p \<noteq> projectId0) prev)))
          (Do (SetTasks
                 (map (\<lambda>t. if projectId t = Some projectId0
                           then t\<lparr>projectId := None, projectName := None,
                                  projectShortCode := None\<rparr>
                           else t)))
             (live_call isLive (Api_deleteProject projectId0)
                (case project of
                   None \<Rightarrow> Done
                 | Some p \<Rightarrow> log_activity clk ''Deleted project'' (p_title p)))))"

section \<open>The goal handlers\<close>

definition find_goal :: "string \<Rightarrow> goal list \<Rightarrow> goal option" where
  "find_goal goalId gs = find (\<lambda>g. g_id g = goalId) gs"

definition goal_changes :: "goal_patch \<Rightarrow> string list" where
  "goal_changes updates =
     (case gp_progress updates of
        None \<Rightarrow> []
      | Some n \<Rightarrow> [''progress -> '' @ show_int n @ ''%''])
     @ (case gp_status updates of
          None \<Rightarrow> []
        | Some st \<Rightarrow> if st = [] then [] else [''status -> '' @ st])
     @ (if truthy (gp_title updates) then [''title''] else [])
     @ (if defined (gp_description updates) \<noteq> None then [''description''] else [])
     @ (if defined (gp_targetDate updates) \<noteq> None then [''target date''] else [])"

text \<open>\<^verbatim>\<open>handleUpdateGoal\<close> merges the update as it is given: no field is checked.\<close>

definition handleUpdateGoal :: "bool \<Rightarrow> store \<Rightarrow> clock \<Rightarrow> string \<Rightarrow> goal_patch \<Rightarrow> prog" where
  "handleUpdateGoal isLive snap clk goalId updates =
     Do (SetGoals (map (\<lambda>g. if g_id g = goalId then apply_goal_patch updates g else g)))
       (live_call isLive
          (Api_updateGoal goalId (gp_progress updates) (gp_status updates) (gp_title updates)
             (defined (gp_description updates)) (defined (gp_targetDate updates)))
          (case find_goal goalId (goals snap) of
             None \<Rightarrow> Done
           | Some goal0 \<Rightarrow>
               log_activity clk ''Updated goal''
                 ((case or_undefined (gp_title updates) of
                     Some title \<Rightarrow> title
                   | None \<Rightarrow> g_title goal0)
                  @ '': '' @ join '', '' (goal_changes updates))))"

definition find_agent :: "string option \<Rightarrow> agent list \<Rightarrow> agent option" where
  "find_agent key as = (if truthy key then find_by a_id key as else None)"

definition tempGoal :: "store \<Rightarrow> clock \<Rightarrow> goal_data \<Rightarrow> goal" where
  "tempGoal snap clk data =
     (let ownerAgent = find_agent (gd_ownerAgentId data) (agents snap)
      in \<lparr> g_id = temp_id clk,
           g_title = gd_title data,
           g_description = None,
           progress = 0,
           g_status = ''on-track'',
           ownerAgentId = gd_ownerAgentId data,
           ownerName =
             (case or_undefined (map_option a_name ownerAgent) of
                Some n \<Rightarrow> n
              | None \<Rightarrow> ''Unassigned''),
           ownerEmoji =
             (case ownerAgent of
                None \<Rightarrow> '':dart:''
              | Some a \<Rightarrow> lookup_or goalEmojiMap (Some (a_role a)) '':robot:''),
           g_targetDate = gd_targetDate data,
           initiatives = [] \<rparr>)"

text \<open>A new goal goes to the end of the collection (\<^verbatim>\<open>[...prev, tempGoal]\<close>).\<close>

definition handleCreateGoal :: "bool \<Rightarrow> store \<Rightarrow> clock \<Rightarrow> goal_data \<Rightarrow> prog" where
  "handleCreateGoal isLive snap clk data =
     (let temp = tempGoal snap clk data
      in Do (SetGoals (\<lambda>prev. prev @ [temp]))
           (live_create isLive
              (Api_createGoal (gd_title data) (gd_description data) (gd_ownerAgentId data)
                 (gd_targetDate data) ''Q1-2026'')
              (\<lambda>row. SetGoals
                 (map (\<lambda>g. if g_id g = g_id temp then temp\<lparr>g_id := row_id row\<rparr> else g)))
              (log_activity clk ''Created goal'' (gd_title data))))"

definition handleDeleteGoal :: "bool \<Rightarrow> store \<Rightarrow> clock \<Rightarrow> string \<Rightarrow> prog" where
  "handleDeleteGoal isLive snap clk goalId =
     (let goal0 = find_goal goalId (goals snap)
      in Do (SetGoals (filter (\<lambda>g. g_id g \<noteq> goalId)))
           (live_call isLive (Api_deleteGoal goalId)
              (case goal0 of
                 None \<Rightarrow> Done
               | Some g \<Rightarrow> log_activity clk ''Deleted goal'' (g_title g))))"

section \<open>The feature-request and agent handlers\<close>

definition tempFr :: "clock \<Rightarrow> fr_data \<Rightarrow> feature_request" where
  "tempFr clk data =
     \<lparr> fr_id = temp_id clk,
       fr_title = fd_title data,
       fr_description = fd_description data,
       screenshotUrl = fd_screenshotUrl data,
       sourceView = fd_sourceView data,
       fr_status = ''new'',
       fr_priority = (case or_undefined (fd_priority data) of None \<Rightarrow> ''medium'' | Some p \<Rightarrow> p),
       fr_createdAt = now_iso clk,
       fr_updatedAt = now_iso clk \<rparr>"

definition handleCreateFeatureRequest :: "bool \<Rightarrow> store \<Rightarrow> clock \<Rightarrow> fr_data \<Rightarrow> prog" where
  "handleCreateFeatureRequest isLive snap clk data =
     (let temp = tempFr clk data
      in Do (SetFeatureRequests ((#) temp))
           (live_create isLive
              (Api_createFeatureRequest (fd_title data) (fd_description data)
                 (fd_screenshotUrl data) (fd_sourceView data) (fd_priority data))
              (\<lambda>row. SetFeatureRequests
                 (map (\<lambda>fr. if fr_id fr = fr_id temp
                            then temp\<lparr>fr_id := row_id row,
                                     fr_createdAt := row_created_at row,
                                     fr_updatedAt := row_updated_at row\<rparr>
                            else fr)))
              (log_activity clk ''Captured idea'' (fd_title data))))"

definition apply_fr_updates :: "fr_updates \<Rightarrow> string \<Rightarrow> feature_request \<Rightarrow> feature_request" where
  "apply_fr_updates updates stamp fr =
     fr\<lparr> fr_status := patch_field (fu_status updates) (fr_status fr),
         fr_priority := patch_field (fu_priority updates) (fr_priority fr),
         fr_title := patch_field (fu_title updates) (fr_title fr),
         fr_description := patch_field (map_option Some (fu_description updates))
                             (fr_description fr),
         fr_updatedAt := stamp \<rparr>"

text \<open>The next three handlers end after the gateway call: they build no activity item.\<close>

definition handleUpdateFeatureRequest :: "bool \<Rightarrow> store \<Rightarrow> clock \<Rightarrow> string \<Rightarrow> fr_updates \<Rightarrow> prog" where
  "handleUpdateFeatureRequest isLive snap clk frId updates =
     Do (SetFeatureRequests
           (map (\<lambda>fr. if fr_id fr = frId then apply_fr_updates updates (now_iso clk) fr
                      else fr)))
       (live_call isLive (Api_updateFeatureRequest frId updates) Done)"

definition handleDeleteFeatureRequest :: "bool \<Rightarrow> store \<Rightarrow> clock \<Rightarrow> string \<Rightarrow> prog" where
  "handleDeleteFeatureRequest isLive snap clk frId =
     Do (SetFeatureRequests (filter (\<lambda>fr. fr_id fr \<noteq> frId)))
       (live_call isLive (Api_deleteFeatureRequest frId) Done)"

definition apply_agent_updates :: "agent_updates \<Rightarrow> agent \<Rightarrow> agent" where
  "apply_agent_updates updates a =
     (let a1 = (case or_undefined (au_functional_name updates) of
                  Some name \<Rightarrow> a\<lparr>a_role := name\<rparr>
                | None \<Rightarrow> a)
      in case au_is_active updates of
           None \<Rightarrow> a1
         | Some b \<Rightarrow> a1\<lparr>a_status := (if b then Active else Idle)\<rparr>)"

definition handleUpdateAgent :: "bool \<Rightarrow> store \<Rightarrow> clock \<Rightarrow> string \<Rightarrow> agent_updates \<Rightarrow> prog" where
  "handleUpdateAgent isLive snap clk agentId updates =
     live_call isLive (Api_updateAgent agentId updates)
       (Do (SetAgents (map (\<lambda>a. if a_id a \<noteq> agentId then a
                                else apply_agent_updates updates a)))
          Done)"

text \<open>
  \<^verbatim>\<open>handleSpawnAgent\<close>. Live, the agent the gateway returns is mapped and appended.
  Offline, or when the call throws or returns no data, a local agent is appended in
  status spawning and a timer sets it active after three seconds. Every path puts one
  item in front of the activity collection. The local agent is built right before the
  activity item, under the same clock reading; the double quotes of the detail are
  character \<open>0x22\<close>.
\<close>

definition spawn_entry :: "clock \<Rightarrow> string \<Rightarrow> string \<Rightarrow> activity_item" where
  "spawn_entry clk name0 role =
     \<lparr> act_id = ''a'' @ decimal (later_ms clk), act_agent = ''The CEA'',
       agentEmoji = '':brain:'', action = ''Spawned agent'',
       detail = ''Deployed '' @ [CHR 0x22] @ name0 @ [CHR 0x22] @ '' ('' @ role @ '')'',
       timestamp = ''Just now'', act_type = Spawn \<rparr>"

definition newAgent :: "clock \<Rightarrow> string \<Rightarrow> string \<Rightarrow> string \<Rightarrow> string \<Rightarrow> agent" where
  "newAgent clk name0 emoji role description =
     \<lparr> a_id = ''agent-'' @ decimal (later_ms clk), a_name = name0, a_role = role,
       a_emoji = emoji, a_status = Spawning, a_description = description,
       tasksCompleted = 0, currentTask = Some ''Initializing...'', uptime = ''0m'',
       metrics = [] \<rparr>"

definition spawn_locally :: "clock \<Rightarrow> string \<Rightarrow> string \<Rightarrow> string \<Rightarrow> string \<Rightarrow> prog" where
  "spawn_locally clk name0 emoji role description =
     Do (SetAgents (\<lambda>prev. prev @ [newAgent clk name0 emoji role description]))
       (Do (SetActivity ((#) (spawn_entry clk name0 role)))
          (SetTimeout 3000
             (Do (SetAgents
                    (map (\<lambda>a. if a_id a = a_id (newAgent clk name0 emoji role description)
                              then a\<lparr>a_status := Active, uptime := ''1m''\<rparr> else a)))
                Done)))"

definition handleSpawnAgent :: "bool \<Rightarrow> store \<Rightarrow> clock \<Rightarrow> string \<Rightarrow> string \<Rightarrow> string \<Rightarrow> string \<Rightarrow> prog" where
  "handleSpawnAgent isLive snap clk name0 emoji role description =
     (if isLive
      then Await
             (Api_spawnAgent
                (''@'' @ map (\<lambda>c. if is_space c then CHR ''_'' else c) name0) role description)
             (\<lambda>out.
                case out of
                  Resolved (Some row) \<Rightarrow>
                    Do (SetAgents (\<lambda>prev. prev @ [mapAgent (row_agent row)]))
                      (Do (SetActivity ((#) (spawn_entry clk name0 role))) Done)
                | Resolved None \<Rightarrow> spawn_locally clk name0 emoji role description
                | Rejected \<Rightarrow> ConsoleError (spawn_locally clk name0 emoji role description))
      else spawn_locally clk name0 emoji role description)"

section \<open>User actions\<close>

text \<open>
  The write mutations the views can start, one constructor per handler of
  \<^verbatim>\<open>AuthenticatedApp\<close> that is passed down as a callback.
\<close>

datatype user_action =
    UpdateTaskStatus string task_status
  | UpdateTask string task_patch
  | CreateTask task_data
  | DeleteTask string
  | UpdateProject string project_patch
  | CreateProject project_data
  | DeleteProject string
  | UpdateGoal string goal_patch
  | CreateGoal goal_data
  | DeleteGoal string
  | CreateFeatureRequest fr_data
  | UpdateFeatureRequest string fr_updates
  | DeleteFeatureRequest string
  | UpdateAgent string agent_updates
  | SpawnAgent string string string string

fun handler :: "bool \<Rightarrow> store \<Rightarrow> clock \<Rightarrow> user_action \<Rightarrow> prog" where
  "handler isLive snap clk (UpdateTaskStatus i st) = handleUpdateTaskStatus isLive snap clk i st"
| "handler isLive snap clk (UpdateTask i u) = handleUpdateTask isLive snap clk i u"
| "handler isLive snap clk (CreateTask d) = handleCreateTask isLive snap clk d"
| "handler isLive snap clk (DeleteTask i) = handleDeleteTask isLive snap clk i"
| "handler isLive snap clk (UpdateProject i u) = handleUpdateProject isLive snap clk i u"
| "handler isLive snap clk (CreateProject d) = handleCreateProject isLive snap clk d"
| "handler isLive snap clk (DeleteProject i) = handleDeleteProject isLive snap clk i"
| "handler isLive snap clk (UpdateGoal i u) = handleUpdateGoal isLive snap clk i u"
| "handler isLive snap clk (CreateGoal d) = handleCreateGoal isLive snap clk d"
| "handler isLive snap clk (DeleteGoal i) = handleDeleteGoal isLive snap clk i"
| "handler isLive snap clk (CreateFeatureRequest d) =
     handleCreateFeatureRequest isLive snap clk d"
| "handler isLive snap clk (UpdateFeatureRequest i u) =
     handleUpdateFeatureRequest isLive snap clk i u"
| "handler isLive snap clk (DeleteFeatureRequest i) =
     handleDeleteFeatureRequest isLive snap clk i"
| "handler isLive snap clk (UpdateAgent i u) = handleUpdateAgent isLive snap clk i u"
| "handler isLive snap clk (SpawnAgent n e r d) = handleSpawnAgent isLive snap clk n e r d"

section \<open>The views that start mutations\<close>

text \<open>
  A view function reads the view's form state and calls at most one handler; the call is
  its result (\<open>None\<close> when it returns early). The resets of form and drag state that
  follow are view state and are left out.
\<close>

record new_task_form =
  nt_title :: string
  nt_description :: string
  nt_priority :: priority
  nt_assignedTo :: string
  nt_projectId :: string

text \<open>\<^verbatim>\<open>TaskBoard.handleCreateTask\<close>; \<open>hasCallback\<close> says the optional prop is given.\<close>

definition TaskBoard_handleCreateTask :: "bool \<Rightarrow> new_task_form \<Rightarrow> user_action option" where
  "TaskBoard_handleCreateTask hasCallback newTask =
     (if \<not> hasCallback \<or> trim (nt_title newTask) = [] then None
      else Some (CreateTask
             \<lparr> td_title = trim (nt_title newTask),
               td_description =
                 (if trim (nt_description newTask) \<noteq> [] then trim (nt_description newTask)
                  else trim (nt_title newTask)),
               td_priority = nt_priority newTask,
               td_assignedTo = nt_assignedTo newTask,
               td_projectId = or_undefined (Some (nt_projectId newTask)),
               td_parentTaskId = None \<rparr>))"

text \<open>\<^verbatim>\<open>ProjectDetail.handleCreateTask\<close>, on the project the detail view shows.\<close>

definition ProjectDetail_handleCreateTask :: "project \<Rightarrow> string \<Rightarrow> priority \<Rightarrow> string \<Rightarrow> user_action option" where
  "ProjectDetail_handleCreateTask project0 newTitle newPriority newAssignee =
     (if trim newTitle = [] then None
      else Some (CreateTask
             \<lparr> td_title = trim newTitle,
               td_description = trim newTitle,
               td_priority = newPriority,
               td_assignedTo = newAssignee,
               td_projectId = Some (p_id project0),
               td_parentTaskId = None \<rparr>))"

text \<open>\<^verbatim>\<open>TaskCaptureModal.handleSubmit\<close>.\<close>

definition TaskCaptureModal_handleSubmit :: "string \<Rightarrow> priority \<Rightarrow> string \<Rightarrow> string \<Rightarrow> user_action option" where
  "TaskCaptureModal_handleSubmit title0 priority0 assignedTo0 projectId0 =
     (if trim title0 = [] then None
      else Some (CreateTask
             \<lparr> td_title = trim title0,
               td_description = trim title0,
               td_priority = priority0,
               td_assignedTo = assignedTo0,
               td_projectId = or_undefined (Some projectId0),
               td_parentTaskId = None \<rparr>))"

text \<open>
  \<^verbatim>\<open>TaskBoard.handleDrop\<close>. The drag carries the task id; \<open>boardTasks\<close> is the
  \<^verbatim>\<open>tasks\<close> prop and the target is the key of the column, one of the four statuses.
\<close>

definition handleDrop :: "task list \<Rightarrow> string \<Rightarrow> task_status \<Rightarrow> user_action option" where
  "handleDrop boardTasks taskId targetStatus =
     (if taskId = [] then None
      else (case find_task taskId boardTasks of
              None \<Rightarrow> None
            | Some task \<Rightarrow>
                if t_status task \<noteq> targetStatus then Some (UpdateTaskStatus taskId targetStatus)
                else None))"

text \<open>
  The progress editor of \<^verbatim>\<open>Strategy\<close>. \<^verbatim>\<open>parseInt\<close> skips leading white space,
  reads a sign, an optional \<^verbatim>\<open>0x\<close> and the longest run of digits; with no digit it
  is \<^verbatim>\<open>NaN\<close>, here \<open>None\<close>. Numbers are integers in the model.
\<close>

definition digit_value :: "nat \<Rightarrow> char \<Rightarrow> nat option" where
  "digit_value radix c =
     (case map_of (zip ''0123456789abcdefABCDEF''
                     [0, 1, 2, 3, 4, 5, 6, 7, 8, 9, 10, 11, 12, 13, 14, 15,
                      10, 11, 12, 13, 14, 15]) c of
        None \<Rightarrow> None
      | Some d \<Rightarrow> if d < radix then Some d else None)"

definition read_digits :: "nat \<Rightarrow> string \<Rightarrow> int option" where
  "read_digits radix s =
     (let ds = takeWhile (\<lambda>c. digit_value radix c \<noteq> None) s
      in if ds = [] then None
         else Some (foldl (\<lambda>acc c. acc * int radix
                       + int (case digit_value radix c of None \<Rightarrow> 0 | Some d \<Rightarrow> d)) 0 ds))"

definition parseInt :: "string \<Rightarrow> int option" where
  "parseInt s =
     (let s1 = dropWhile is_space s;
          negative = (take 1 s1 = ''-'');
          s2 = (if take 1 s1 = ''-'' \<or> take 1 s1 = ''+'' then drop 1 s1 else s1);
          magnitude = (if take 2 s2 = ''0x'' \<or> take 2 s2 = ''0X''
                       then read_digits 16 (drop 2 s2) else read_digits 10 s2)
      in map_option (\<lambda>n. if negative then - n else n) magnitude)"

record strategy_state =
  editingProgress :: "string option"
  progressValue :: int

definition startProgressEdit :: "string \<Rightarrow> int \<Rightarrow> strategy_state \<Rightarrow> strategy_state" where
  "startProgressEdit goalId currentProgress st =
     st\<lparr>editingProgress := Some goalId, progressValue := currentProgress\<rparr>"

text \<open>
  The input's \<^verbatim>\<open>onChange\<close>:
  \<^verbatim>\<open>setProgressValue(Math.min(100, Math.max(0, parseInt(e.target.value) || 0)))\<close>.
  \<^verbatim>\<open>saveProgress\<close> sends the value the editor holds; its callback prop is the one
  \<^verbatim>\<open>AuthenticatedApp\<close> always passes.
\<close>

definition onChangeProgress :: "string \<Rightarrow> strategy_state \<Rightarrow> strategy_state" where
  "onChangeProgress v st =
     st\<lparr>progressValue := min 100 (max 0 (case parseInt v of None \<Rightarrow> 0 | Some n \<Rightarrow> n))\<rparr>"

definition saveProgress :: "string \<Rightarrow> strategy_state \<Rightarrow> user_action option \<times> strategy_state" where
  "saveProgress goalId st =
     (Some (UpdateGoal goalId (no_goal_patch\<lparr>gp_progress := Some (progressValue st)\<rparr>)),
      st\<lparr>editingProgress := None\<rparr>)"

text \<open>
  A view's call, run to its end on the store the view was rendered from; no call leaves
  the store as it is and issues nothing.
\<close>

definition dispatch :: "bool \<Rightarrow> clock \<Rightarrow> outcome \<Rightarrow> user_action option \<Rightarrow> store \<Rightarrow> store \<times> event list" where
  "dispatch isLive clk out call s =
     (case call of
        None \<Rightarrow> (s, [])
      | Some a \<Rightarrow> run (handler isLive s clk a) out s)"

section \<open>Reading a trace\<close>

text \<open>The events of a run up to the moment its gateway call settles.\<close>

fun is_issued :: "event \<Rightarrow> bool" where
  "is_issued (Issued r) = True"
| "is_issued e = False"

fun is_settled :: "event \<Rightarrow> bool" where
  "is_settled (Settled out) = True"
| "is_settled e = False"

definition before_settled :: "event list \<Rightarrow> event list" where
  "before_settled tr = takeWhile (\<lambda>e. \<not> is_settled e) tr"

text \<open>The collection an action is about.\<close>

fun target_collection :: "user_action \<Rightarrow> collection" where
  "target_collection (UpdateTaskStatus i st) = Tasks"
| "target_collection (UpdateTask i u) = Tasks"
| "target_collection (CreateTask d) = Tasks"
| "target_collection (DeleteTask i) = Tasks"
| "target_collection (UpdateProject i u) = Projects"
| "target_collection (CreateProject d) = Projects"
| "target_collection (DeleteProject i) = Projects"
| "target_collection (UpdateGoal i u) = Goals"
| "target_collection (CreateGoal d) = Goals"
| "target_collection (DeleteGoal i) = Goals"
| "target_collection (CreateFeatureRequest d) = FeatureRequests"
| "target_collection (UpdateFeatureRequest i u) = FeatureRequests"
| "target_collection (DeleteFeatureRequest i) = FeatureRequests"
| "target_collection (UpdateAgent i u) = Agents"
| "target_collection (SpawnAgent n e r d) = Agents"

text \<open>
  The handlers whose first statement is the setter of their collection: all but
  \<^verbatim>\<open>handleUpdateTaskStatus\<close>, \<^verbatim>\<open>handleUpdateAgent\<close> and
  \<^verbatim>\<open>handleSpawnAgent\<close>, which start with the \<^verbatim>\<open>await\<close>.
\<close>

fun commits_first :: "user_action \<Rightarrow> bool" where
  "commits_first (UpdateTaskStatus i st) = False"
| "commits_first (UpdateAgent i u) = False"
| "commits_first (SpawnAgent n e r d) = False"
| "commits_first a = True"

section \<open>Sample data\<close>

text \<open>A small store for the concrete instances of the theorems below.\<close>

definition sample_clock :: clock where
  "sample_clock =
     \<lparr> now_ms = 1771146000000, now_iso = ''2026-02-15T09:00:00.000Z'',
       later_ms = 1771146000180 \<rparr>"

definition sample_task :: task where
  "sample_task =
     \<lparr> t_id = ''t1'', t_title = ''Draft Q1 report'', t_description = ''Draft Q1 report'',
       assignedTo = ''tiger'', assignedBy = ''tiger'', t_priority = High, t_status = Pending,
       deadline = None, t_createdAt = ''2026-02-14T08:30:00.000Z'', tags = [],
       projectId = Some ''p1'', projectName = Some ''Q1 Growth Push'',
       projectShortCode = Some ''GRW'', parentTaskId = None \<rparr>"

definition sample_project :: project where
  "sample_project =
     \<lparr> p_id = ''p1'', p_title = ''PR.GRW | Q1 Growth Push'', shortCode = ''GRW'',
       p_description = None, p_status = ''active'', department = ''Growth'',
       departmentId = Some ''d1'', leadAgentId = None, p_targetDate = None, taskCount = 1,
       completedTaskCount = 0, p_notes = None, p_createdAt = ''2026-02-01T10:00:00.000Z'',
       parentProjectId = None \<rparr>"

definition sample_goal :: goal where
  "sample_goal =
     \<lparr> g_id = ''g1'', g_title = ''Reach 10k members'', g_description = None, progress = 40,
       g_status = ''on-track'', ownerAgentId = None, ownerName = ''Unassigned'',
       ownerEmoji = '':dart:'', g_targetDate = None, initiatives = [] \<rparr>"

definition sample_feature_request :: feature_request where
  "sample_feature_request =
     \<lparr> fr_id = ''f1'', fr_title = ''Dark mode toggle'', fr_description = None,
       screenshotUrl = None, sourceView = Some ''dashboard'', fr_status = ''new'',
       fr_priority = ''medium'', fr_createdAt = ''2026-02-10T12:00:00.000Z'',
       fr_updatedAt = ''2026-02-10T12:00:00.000Z'' \<rparr>"

definition sample_agent :: agent where
  "sample_agent =
     \<lparr> a_id = ''ag1'', a_name = ''Chief of Staff'', a_role = ''@Chief_of_Staff'',
       a_emoji = '':clipboard:'', a_status = Active, a_description = ''Keeps the plan'',
       tasksCompleted = 0, currentTask = None, uptime = ''live'', metrics = [] \<rparr>"

definition sample_store :: store where
  "sample_store =
     \<lparr> tasks =
         [sample_task,
          sample_task\<lparr>t_id := ''t2'', t_title := ''Review budget'', t_status := Review,
                      projectId := None, projectName := None, projectShortCode := None\<rparr>],
       projects =
         [sample_project,
          sample_project\<lparr>p_id := ''p2'', p_title := ''PR.ADS | Paid Ads'', shortCode := ''ADS'',
                         parentProjectId := Some ''p1''\<rparr>],
       goals = [sample_goal],
       featureRequests = [sample_feature_request],
       agents = [sample_agent],
       activity = [],
       departments = [\<lparr>d_id = ''d1'', d_name = ''Growth''\<rparr>] \<rparr>"

definition sample_raw_project :: raw_project where
  "sample_raw_project =
     \<lparr> rp_id = ''p1'', rp_title = ''PR.GRW | Q1 Growth Push'', rp_description = None,
       rp_status = Some ''active'', rp_dept_id = Some ''d1'', rp_lead_agent_id = None,
       rp_target_date = None, rp_notes = None, rp_created_at = ''2026-02-01T10:00:00.000Z'',
       rp_parent_project_id = None \<rparr>"

definition sample_project_data :: project_data where
  "sample_project_data =
     \<lparr> pd_title = ''PR.GRW | Q1 Growth Push'', pd_deptId = Some ''d1'',
       pd_description = None, pd_parentProjectId = None \<rparr>"

definition sample_raw_goal :: raw_goal where
  "sample_raw_goal =
     \<lparr> rg_id = ''g9'', rg_title = ''Double the newsletter'', rg_description = None,
       rg_progress = Some 150, rg_status = Some ''ahead'', rg_owner_agent_id = None,
       rg_owner_name = None, rg_target_date = None, rg_initiatives = None \<rparr>"

definition sample_task_data :: task_data where
  "sample_task_data =
     \<lparr> td_title = ''Write launch post'', td_description = ''Write launch post'',
       td_priority = Medium, td_assignedTo = ''tiger'', td_projectId = None,
       td_parentTaskId = None \<rparr>"

definition sample_fr_data :: fr_data where
  "sample_fr_data =
     \<lparr> fd_title = ''Export to CSV'', fd_description = None, fd_screenshotUrl = None,
       fd_sourceView = Some ''tasks'', fd_priority = None \<rparr>"

definition sample_row :: remote_row where
  "sample_row =
     \<lparr> row_id = ''task-77'', row_created_at = ''2026-02-15T09:00:01.412Z'',
       row_updated_at = ''2026-02-15T09:00:01.412Z'', row_handle = [],
       row_functional_name = [], row_is_active = False, row_system_prompt = None,
       row_tool_access = None \<rparr>"

text \<open>
  An edit between a create and its reconciliation: the task is created live, its title is
  edited while the create call is pending, then the create call resolves with
  \<open>sample_row\<close>.
\<close>

definition race_created :: "store \<times> event list \<times> suspension" where
  "race_created = start (handleCreateTask True sample_store sample_clock sample_task_data)
     sample_store"

definition race_edited :: store where
  "race_edited =
     fst (start (handleUpdateTask True (fst race_created)
            (sample_clock\<lparr>now_ms := 1771146000900, later_ms := 1771146001500\<rparr>)
            (temp_id sample_clock)
            (no_task_patch\<lparr>tp_title := Some ''Write launch post (draft 2)''\<rparr>))
          (fst race_created))"

definition race_reconciled :: store where
  "race_reconciled =
     fst (resume (snd (snd race_created)) (Resolved (Some sample_row)) race_edited)"

section \<open>Running the handlers\<close>

text \<open>
  With nothing in between, a run is its synchronous part followed by the part after the
  call.
\<close>

lemma run_start_resume:
  "run p out s =
     (case start p s of
        (s1, tr, w) \<Rightarrow> (case resume w out s1 of (s2, tr') \<Rightarrow> (s2, tr @ tr')))"
proof (induction p arbitrary: s)
  case Done
  show ?case by (simp add: resume_def)
next
  case (Do u p)
  obtain s1 tr w where st: "start p (apply_update u s) = (s1, tr, w)"
    by (cases "start p (apply_update u s)")
  obtain s2 tr' where rs: "resume w out s1 = (s2, tr')"
    by (cases "resume w out s1")
  from Do.IH [of "apply_update u s"] st rs
  have "run p out (apply_update u s) = (s2, tr @ tr')" by simp
  with st rs show ?case by simp
next
  case (ConsoleError p)
  obtain s1 tr w where st: "start p s = (s1, tr, w)"
    by (cases "start p s")
  obtain s2 tr' where rs: "resume w out s1 = (s2, tr')"
    by (cases "resume w out s1")
  from ConsoleError.IH [of s] st rs have "run p out s = (s2, tr @ tr')" by simp
  with st rs show ?case by simp
next
  case (Await r k)
  show ?case by (simp add: resume_def split: prod.split)
next
  case (SetTimeout ms callback)
  show ?case by (simp add: resume_def split: prod.split)
qed

lemma fst_run_live_call:
  "fst (run (live_call isLive r rest) out s) = fst (run rest out s)"
  by (cases out) (simp_all add: live_call_def split_beta)

lemma fst_run_log_activity:
  "fst (run (log_activity clk a d) out s) =
     s\<lparr>activity := activity_entry clk a d # activity s\<rparr>"
  by (simp add: log_activity_def)

lemma fst_start_live_create:
  "fst (start (live_create isLive r reconcile (log_activity clk a d)) s) =
     (if isLive then s else s\<lparr>activity := activity_entry clk a d # activity s\<rparr>)"
  by (simp add: live_create_def log_activity_def)

lemma fst_run_live_create:
  "fst (run (live_create isLive r reconcile rest) out s) =
     (if isLive
      then (case out of
              Resolved None \<Rightarrow> fst (run rest out s)
            | Resolved (Some row) \<Rightarrow> fst (run rest out (apply_update (reconcile row) s))
            | Rejected \<Rightarrow> fst (run rest out s))
      else fst (run rest out s))"
  by (simp add: live_create_def split_beta split: outcome.split option.split)

text \<open>The trace of a run, for the two shapes and their parts.\<close>

lemma snd_run_Do:
  "snd (run (Do u p) out s) = Commit (collection_of u) # snd (run p out (apply_update u s))"
  by (simp add: split_beta)

lemma snd_run_log_activity: "snd (run (log_activity clk a d) out s) = [Commit Activity]"
  by (simp add: log_activity_def)

lemma snd_run_live_call:
  "snd (run (live_call isLive r rest) out s) =
     (if isLive
      then Issued r # Settled out # (if out = Rejected then [Logged] else [])
           @ snd (run rest out s)
      else snd (run rest out s))"
  by (cases out) (simp_all add: live_call_def split_beta)

lemma snd_run_live_create:
  "snd (run (live_create isLive r reconcile rest) out s) =
     (if isLive
      then Issued r # Settled out #
           (case out of
              Resolved None \<Rightarrow> snd (run rest out s)
            | Resolved (Some row) \<Rightarrow>
                Commit (collection_of (reconcile row))
                # snd (run rest out (apply_update (reconcile row) s))
            | Rejected \<Rightarrow> Logged # snd (run rest out s))
      else snd (run rest out s))"
  by (simp add: live_create_def split_beta split: outcome.split option.split)

section \<open>Properties of the status translation\<close>

lemma remoteStatus_simps:
  "remoteStatus Pending = ''todo''"
  "remoteStatus In_progress = ''in_progress''"
  "remoteStatus Review = ''in_progress''"
  "remoteStatus Completed = ''done''"
  by (simp_all add: remoteStatus_def lookup_or_def writeStatusMap_def)

text \<open>
  Claim C3. A remote row with priority 1 and status \<open>failed\<close> is mapped to local priority
  critical and local status review, whatever its other fields and whatever agents and
  projects are loaded. Written back, the four local statuses serialise as todo,
  in_progress, in_progress and done. So the status of that row comes back as
  in_progress: a live status update to the mapped status starts by issuing the gateway
  call with \<open>in_progress\<close>.
\<close>

theorem status_translation_lossy:
  "t_priority (mapTask (t\<lparr>rt_priority := Some 1, rt_status := Some ''failed''\<rparr>) rawAgents rawProjects)
     = Critical
   \<and> t_status (mapTask (t\<lparr>rt_priority := Some 1, rt_status := Some ''failed''\<rparr>) rawAgents rawProjects)
     = Review
   \<and> remoteStatus Pending = ''todo''
   \<and> remoteStatus In_progress = ''in_progress''
   \<and> remoteStatus Review = ''in_progress''
   \<and> remoteStatus Completed = ''done''
   \<and> remoteStatus
       (t_status (mapTask (t\<lparr>rt_priority := Some 1, rt_status := Some ''failed''\<rparr>) rawAgents rawProjects))
     = ''in_progress''
   \<and> hd (snd (run (handleUpdateTaskStatus True snap clk taskId
        (t_status (mapTask (t\<lparr>rt_priority := Some 1, rt_status := Some ''failed''\<rparr>)
           rawAgents rawProjects))) out s))
     = Issued (Api_updateTaskStatus taskId ''in_progress'')"
  by (simp add: mapTask_def Let_def lookup_or_def priorityMap_def statusMap_def
      remoteStatus_simps handleUpdateTaskStatus_def snd_run_live_call)

section \<open>Temporary identifiers\<close>

text \<open>
  The rendering of a clock value: \<open>decimal\<close> gives digits only, and reading them back
  with \<^verbatim>\<open>parseInt\<close> gives the value, so two values with one rendering are equal.
\<close>

lemma digit_value_nth:
  assumes "n < 10"
  shows "digit_value 10 (''0123456789'' ! n) = Some n"
proof -
  from assms have "n \<in> {0, 1, 2, 3, 4, 5, 6, 7, 8, 9}"
    by auto
  then show ?thesis
    by (auto simp: digit_value_def)
qed

lemma decimal_not_Nil: "decimal n \<noteq> []"
  by (subst decimal.simps) simp

lemma decimal_all_digits: "c \<in> set (decimal n) \<Longrightarrow> digit_value 10 c \<noteq> None"
proof (induction n rule: decimal.induct)
  case (1 n)
  show ?case
  proof (cases "n < 10")
    case True
    with "1.prems" have "c = ''0123456789'' ! n"
      by (subst (asm) decimal.simps) simp
    with True show ?thesis by (simp add: digit_value_nth)
  next
    case False
    with "1.prems" have "c \<in> set (decimal (n div 10)) \<or> c = ''0123456789'' ! (n mod 10)"
      by (subst (asm) decimal.simps) auto
    then show ?thesis
    proof
      assume "c \<in> set (decimal (n div 10))"
      with False "1.IH" show ?thesis by blast
    next
      assume "c = ''0123456789'' ! (n mod 10)"
      then show ?thesis by (simp add: digit_value_nth)
    qed
  qed
qed

lemma decimal_value:
  "foldl (\<lambda>acc c. acc * int 10
            + int (case digit_value 10 c of None \<Rightarrow> 0 | Some d \<Rightarrow> d)) 0 (decimal n) = int n"
proof (induction n rule: decimal.induct)
  case (1 n)
  show ?case
  proof (cases "n < 10")
    case True
    then show ?thesis
      by (subst decimal.simps) (simp add: digit_value_nth)
  next
    case False
    have ar: "int (n div 10) * 10 + int (n mod 10) = int n"
      by (simp add: zdiv_int zmod_int)
    from False "1.IH" show ?thesis
      by (subst decimal.simps) (simp add: digit_value_nth ar)
  qed
qed

lemma read_digits_decimal: "read_digits 10 (decimal n) = Some (int n)"
proof -
  have tw: "takeWhile (\<lambda>c. digit_value 10 c \<noteq> None) (decimal n) = decimal n"
    by (rule takeWhile_eq_all_conv [THEN iffD2]) (auto dest: decimal_all_digits)
  show ?thesis
    unfolding read_digits_def Let_def tw
    using decimal_not_Nil [of n] decimal_value [of n] by simp
qed

lemma decimal_inj: "decimal m = decimal n \<longleftrightarrow> m = n"
proof
  assume "decimal m = decimal n"
  then have "read_digits 10 (decimal m) = read_digits 10 (decimal n)" by simp
  then show "m = n" by (simp add: read_digits_decimal)
qed simp

lemma decimal_sample: "decimal 1771146000000 = ''1771146000000''"
  by (simp add: decimal.simps)


lemma digit_char: "digit_value 10 c \<noteq> None \<Longrightarrow> c \<in> set ''0123456789''"
  by (auto simp: digit_value_def split: if_splits option.splits)

lemma parseInt_digits:
  assumes "s \<noteq> []" and "\<forall>c \<in> set s. c \<in> set ''0123456789''"
  shows "parseInt s = read_digits 10 s"
proof (cases s)
  case Nil
  with assms show ?thesis by simp
next
  case (Cons c t)
  with assms have c: "c \<in> set ''0123456789''" by simp
  then have sp: "\<not> is_space c" and sg: "c \<noteq> CHR ''-''" "c \<noteq> CHR ''+''"
    by (auto simp: is_space_def)
  have hx: "take 2 (c # t) \<noteq> ''0x'' \<and> take 2 (c # t) \<noteq> ''0X''"
  proof (cases t)
    case Nil
    then show ?thesis by simp
  next
    case (Cons d u)
    with assms \<open>s = c # t\<close> have "d \<in> set ''0123456789''" by simp
    then have "d \<noteq> CHR ''x''" "d \<noteq> CHR ''X''" by auto
    with Cons show ?thesis by simp
  qed
  from sp sg hx show ?thesis
    unfolding Cons parseInt_def Let_def by (auto simp: option.map_ident)
qed

lemma parseInt_decimal: "parseInt (decimal n) = Some (int n)"
  using parseInt_digits [OF decimal_not_Nil, of n] decimal_all_digits [of _ n] digit_char
  by (auto simp: read_digits_decimal)

text \<open>
  Claim C10. The entity a create handler inserts before any remote call carries the id
  \<open>temp-\<close> followed by the decimal clock value in milliseconds, for tasks, goals, projects
  and feature requests alike (a goal is appended, the others are put in front): the part
  after \<open>temp-\<close> read back as a number is the clock value, and at the clock value
  1771146000000 the id is \<open>temp-1771146000000\<close>. The id depends on the clock value only:
  two creates get the same id exactly when they read the same millisecond, whatever the
  entity types and the arguments, and two task creates in the same millisecond leave two
  tasks with one id in the store.
\<close>

theorem temp_id_is_clock_value:
  "map t_id (tasks (fst (start (handleCreateTask isLive snap clk td) s)))
     = (''temp-'' @ decimal (now_ms clk)) # map t_id (tasks s)
   \<and> map g_id (goals (fst (start (handleCreateGoal isLive snap clk gd) s)))
     = map g_id (goals s) @ [''temp-'' @ decimal (now_ms clk)]
   \<and> map p_id (projects (fst (start (handleCreateProject isLive snap clk pd) s)))
     = (''temp-'' @ decimal (now_ms clk)) # map p_id (projects s)
   \<and> map fr_id (featureRequests (fst (start (handleCreateFeatureRequest isLive snap clk fd) s)))
     = (''temp-'' @ decimal (now_ms clk)) # map fr_id (featureRequests s)
   \<and> t_id (tempTask snap (clk\<lparr>now_ms := n\<rparr>) td)
     = t_id (tempTask snap' (clk'\<lparr>now_ms := n\<rparr>) td')
   \<and> t_id (tempTask snap (clk\<lparr>now_ms := n\<rparr>) td)
     = g_id (tempGoal snap' (clk'\<lparr>now_ms := n\<rparr>) gd')
   \<and> t_id (tempTask snap (clk\<lparr>now_ms := n\<rparr>) td)
     = p_id (tempProject snap' (clk'\<lparr>now_ms := n\<rparr>) pd')
   \<and> t_id (tempTask snap (clk\<lparr>now_ms := n\<rparr>) td)
     = fr_id (tempFr (clk'\<lparr>now_ms := n\<rparr>) fd')
   \<and> \<not> distinct (map t_id (tasks (fst (start
          (handleCreateTask isLive snap' (clk'\<lparr>now_ms := n\<rparr>) td')
          (fst (start (handleCreateTask isLive snap (clk\<lparr>now_ms := n\<rparr>) td) s))))))
   \<and> parseInt (decimal (now_ms clk)) = Some (int (now_ms clk))
   \<and> (t_id (tempTask snap clk td) = t_id (tempTask snap' clk' td'))
       = (now_ms clk = now_ms clk')
   \<and> map t_id (tasks (fst (start
         (handleCreateTask True sample_store sample_clock sample_task_data) sample_store)))
     = [''temp-1771146000000'', ''t1'', ''t2'']
   \<and> map g_id (goals (fst (start
         (handleCreateGoal True sample_store sample_clock
            \<lparr>gd_title = ''Launch the podcast'', gd_description = None,
              gd_ownerAgentId = None, gd_targetDate = None\<rparr>) sample_store)))
     = [''g1'', ''temp-1771146000000'']
   \<and> map p_id (projects (fst (start
         (handleCreateProject True sample_store sample_clock sample_project_data)
         sample_store)))
     = [''temp-1771146000000'', ''p1'', ''p2'']
   \<and> map fr_id (featureRequests (fst (start
         (handleCreateFeatureRequest True sample_store sample_clock sample_fr_data)
         sample_store)))
     = [''temp-1771146000000'', ''f1'']"
proof -
  have general:
    "map t_id (tasks (fst (start (handleCreateTask isLive snap clk td) s)))
       = (''temp-'' @ decimal (now_ms clk)) # map t_id (tasks s)
     \<and> map g_id (goals (fst (start (handleCreateGoal isLive snap clk gd) s)))
       = map g_id (goals s) @ [''temp-'' @ decimal (now_ms clk)]
     \<and> map p_id (projects (fst (start (handleCreateProject isLive snap clk pd) s)))
       = (''temp-'' @ decimal (now_ms clk)) # map p_id (projects s)
     \<and> map fr_id (featureRequests
           (fst (start (handleCreateFeatureRequest isLive snap clk fd) s)))
       = (''temp-'' @ decimal (now_ms clk)) # map fr_id (featureRequests s)"
    for isLive snap clk td gd pd fd s
    by (simp add: handleCreateTask_def handleCreateGoal_def handleCreateProject_def
        handleCreateFeatureRequest_def Let_def split_beta fst_start_live_create
        tempTask_def tempGoal_def tempProject_def tempFr_def temp_id_def)
  have same:
    "t_id (tempTask snap (clk\<lparr>now_ms := n\<rparr>) td)
       = t_id (tempTask snap' (clk'\<lparr>now_ms := n\<rparr>) td')
     \<and> t_id (tempTask snap (clk\<lparr>now_ms := n\<rparr>) td)
       = g_id (tempGoal snap' (clk'\<lparr>now_ms := n\<rparr>) gd')
     \<and> t_id (tempTask snap (clk\<lparr>now_ms := n\<rparr>) td)
       = p_id (tempProject snap' (clk'\<lparr>now_ms := n\<rparr>) pd')
     \<and> t_id (tempTask snap (clk\<lparr>now_ms := n\<rparr>) td)
       = fr_id (tempFr (clk'\<lparr>now_ms := n\<rparr>) fd')
     \<and> \<not> distinct (map t_id (tasks (fst (start
            (handleCreateTask isLive snap' (clk'\<lparr>now_ms := n\<rparr>) td')
            (fst (start (handleCreateTask isLive snap (clk\<lparr>now_ms := n\<rparr>) td) s))))))"
    by (simp add: handleCreateTask_def Let_def split_beta fst_start_live_create
        tempTask_def tempGoal_def tempProject_def tempFr_def temp_id_def)
  have iff: "(t_id (tempTask snap clk td) = t_id (tempTask snap' clk' td'))
       = (now_ms clk = now_ms clk')"
    by (simp add: tempTask_def Let_def temp_id_def decimal_inj)
  have at_sample: "decimal (now_ms sample_clock) = ''1771146000000''"
    by (simp add: sample_clock_def decimal.simps)
  have ids: "map t_id (tasks sample_store) = [''t1'', ''t2'']"
    "map g_id (goals sample_store) = [''g1'']"
    "map p_id (projects sample_store) = [''p1'', ''p2'']"
    "map fr_id (featureRequests sample_store) = [''f1'']"
    by (simp_all add: sample_store_def sample_task_def sample_goal_def sample_project_def
        sample_feature_request_def)
  have sample:
    "map t_id (tasks (fst (start
         (handleCreateTask True sample_store sample_clock sample_task_data) sample_store)))
       = [''temp-1771146000000'', ''t1'', ''t2'']
     \<and> map g_id (goals (fst (start
         (handleCreateGoal True sample_store sample_clock
            \<lparr>gd_title = ''Launch the podcast'', gd_description = None,
              gd_ownerAgentId = None, gd_targetDate = None\<rparr>) sample_store)))
       = [''g1'', ''temp-1771146000000'']
     \<and> map p_id (projects (fst (start
         (handleCreateProject True sample_store sample_clock sample_project_data)
         sample_store)))
       = [''temp-1771146000000'', ''p1'', ''p2'']
     \<and> map fr_id (featureRequests (fst (start
         (handleCreateFeatureRequest True sample_store sample_clock sample_fr_data)
         sample_store)))
       = [''temp-1771146000000'', ''f1'']"
    by (simp only: general at_sample ids append.simps simp_thms)
  have readback: "parseInt (decimal (now_ms clk)) = Some (int (now_ms clk))"
    by (rule parseInt_decimal)
  from general [where isLive = isLive and snap = snap and clk = clk and td = td and gd = gd
      and pd = pd and fd = fd and s = s] same readback iff sample
  show ?thesis by blast
qed

section \<open>Deleting a project\<close>

lemma deleteProject_tasks:
  "tasks (fst (run (handleDeleteProject isLive snap clk pid) out s)) =
     map (\<lambda>t. if projectId t = Some pid
               then t\<lparr>projectId := None, projectName := None, projectShortCode := None\<rparr>
               else t) (tasks s)"
  by (simp add: handleDeleteProject_def Let_def split_beta fst_run_live_call
      fst_run_log_activity split: option.split)

lemma deleteProject_projects:
  "projects (fst (run (handleDeleteProject isLive snap clk pid) out s)) =
     map (\<lambda>p. if parentProjectId p = Some pid then p\<lparr>parentProjectId := None\<rparr> else p)
       (filter (\<lambda>p. p_id p \<noteq> pid) (projects s))"
  by (simp add: handleDeleteProject_def Let_def split_beta fst_run_live_call
      fst_run_log_activity split: option.split)

text \<open>
  Claim C5. Let \<open>p\<close> be a project of the store and \<open>s'\<close> the store after
  \<^verbatim>\<open>handleDeleteProject\<close> has run on its id, live or not and whatever the remote call
  did. The task collection keeps its length; a task that pointed to \<open>p\<close> is the old task
  with \<open>projectId\<close>, \<open>projectName\<close> and \<open>projectShortCode\<close> undefined, and every other
  task is untouched. No project of \<open>s'\<close> has the id of \<open>p\<close>; the ids of the projects are
  the old ones without it, in the old order; no project of \<open>s'\<close> has \<open>p\<close> as its parent;
  and every other project is still there, changed at most in its parent link.
\<close>

theorem delete_project_unlinks:
  fixes s :: store and isLive snap clk out
  assumes "p \<in> set (projects s)"
  defines "s' \<equiv> fst (run (handleDeleteProject isLive snap clk (p_id p)) out s)"
  shows "length (tasks s') = length (tasks s)
    \<and> (\<forall>i < length (tasks s).
          (projectId (tasks s ! i) = Some (p_id p) \<longrightarrow>
             tasks s' ! i = (tasks s ! i)\<lparr>projectId := None, projectName := None,
                                          projectShortCode := None\<rparr>)
        \<and> (projectId (tasks s ! i) \<noteq> Some (p_id p) \<longrightarrow> tasks s' ! i = tasks s ! i))
    \<and> p_id p \<notin> p_id ` set (projects s')
    \<and> map p_id (projects s') = filter (\<lambda>i. i \<noteq> p_id p) (map p_id (projects s))
    \<and> (\<forall>q \<in> set (projects s'). parentProjectId q \<noteq> Some (p_id p))
    \<and> (\<forall>q \<in> set (projects s). p_id q \<noteq> p_id p \<longrightarrow>
          (if parentProjectId q = Some (p_id p) then q\<lparr>parentProjectId := None\<rparr> else q)
            \<in> set (projects s'))"
proof -
  have T: "tasks s' = map (\<lambda>t. if projectId t = Some (p_id p)
               then t\<lparr>projectId := None, projectName := None, projectShortCode := None\<rparr>
               else t) (tasks s)"
    unfolding s'_def by (rule deleteProject_tasks)
  have P: "projects s' =
     map (\<lambda>q. if parentProjectId q = Some (p_id p) then q\<lparr>parentProjectId := None\<rparr> else q)
       (filter (\<lambda>q. p_id q \<noteq> p_id p) (projects s))"
    unfolding s'_def by (rule deleteProject_projects)
  have 1: "length (tasks s') = length (tasks s)" by (simp add: T)
  have 2: "\<forall>i < length (tasks s).
          (projectId (tasks s ! i) = Some (p_id p) \<longrightarrow>
             tasks s' ! i = (tasks s ! i)\<lparr>projectId := None, projectName := None,
                                          projectShortCode := None\<rparr>)
        \<and> (projectId (tasks s ! i) \<noteq> Some (p_id p) \<longrightarrow> tasks s' ! i = tasks s ! i)"
    by (simp add: T)
  have 3: "p_id p \<notin> p_id ` set (projects s')" by (auto simp: P)
  have 4: "map p_id (projects s') = filter (\<lambda>i. i \<noteq> p_id p) (map p_id (projects s))"
    by (simp add: P filter_map comp_def if_distrib[of p_id] cong: if_cong)
  have 5: "\<forall>q \<in> set (projects s'). parentProjectId q \<noteq> Some (p_id p)" by (auto simp: P)
  have 6: "\<forall>q \<in> set (projects s). p_id q \<noteq> p_id p \<longrightarrow>
          (if parentProjectId q = Some (p_id p) then q\<lparr>parentProjectId := None\<rparr> else q)
            \<in> set (projects s')"
    by (auto simp: P)
  from 1 2 3 4 5 6 show ?thesis by blast
qed

text \<open>
  On the sample store: deleting project \<open>p1\<close>, which has one task and the child project
  \<open>p2\<close>, leaves both tasks, none of them in a project, and the project \<open>p2\<close> without a
  parent.
\<close>

theorem delete_project_unlinks_witness:
  "sample_project \<in> set (projects sample_store)
   \<and> map t_id (tasks sample_store) = [''t1'', ''t2'']
   \<and> map projectId (tasks sample_store) = [Some ''p1'', None]
   \<and> map t_id (tasks (fst (run (handleDeleteProject True sample_store sample_clock
        (p_id sample_project)) (Resolved None) sample_store))) = [''t1'', ''t2'']
   \<and> map projectId (tasks (fst (run (handleDeleteProject True sample_store sample_clock
        (p_id sample_project)) (Resolved None) sample_store))) = [None, None]
   \<and> map p_id (projects (fst (run (handleDeleteProject True sample_store sample_clock
        (p_id sample_project)) (Resolved None) sample_store))) = [''p2'']
   \<and> map parentProjectId (projects (fst (run (handleDeleteProject True sample_store
        sample_clock (p_id sample_project)) (Resolved None) sample_store))) = [None]"
proof -
  have h: "sample_project \<in> set (projects sample_store)"
    by (simp add: sample_store_def)
  note r = delete_project_unlinks [OF h, of True sample_store sample_clock "Resolved None"]
  from r have ids: "map p_id (projects (fst (run (handleDeleteProject True sample_store
        sample_clock (p_id sample_project)) (Resolved None) sample_store)))
      = filter (\<lambda>i. i \<noteq> p_id sample_project) (map p_id (projects sample_store))"
    by blast
  show ?thesis
    using h ids
    by (simp add: deleteProject_tasks deleteProject_projects sample_store_def
        sample_project_def sample_task_def)
qed

section \<open>Creating a task with a blank title\<close>

lemma trim_empty_iff: "trim s = [] \<longleftrightarrow> (\<forall>c \<in> set s. is_space c)"
proof
  assume "trim s = []"
  then have all: "\<forall>x \<in> set (dropWhile is_space s). is_space x"
    by (simp add: trim_def dropWhile_eq_Nil_conv)
  have "dropWhile is_space s = []"
  proof (rule ccontr)
    assume ne: "dropWhile is_space s \<noteq> []"
    then have "\<not> is_space (hd (dropWhile is_space s))" by (rule hd_dropWhile)
    moreover from ne have "hd (dropWhile is_space s) \<in> set (dropWhile is_space s)" by simp
    ultimately show False using all by blast
  qed
  then show "\<forall>c \<in> set s. is_space c" by (simp add: dropWhile_eq_Nil_conv)
next
  assume "\<forall>c \<in> set s. is_space c"
  then show "trim s = []" by (auto simp: trim_def dest: set_dropWhileD)
qed

lemma is_space_code_units: "is_space c \<longleftrightarrow> of_char c \<in> set js_white_space"
proof -
  have wide: "(of_char c :: nat) \<noteq> n" if "256 \<le> n" for n
    using that nat_of_char_less_256 [of c] by linarith
  have eq: "(c = d) = ((of_char c :: nat) = of_char d)" for d by simp
  show ?thesis
    unfolding is_space_def js_white_space_def
    by (auto simp add: eq wide simp del: of_char_eq_iff)
qed

text \<open>
  Claim C4. A title is blank when every character of it is white space (the empty title
  included); a character is white space exactly when its code unit is one of the white
  space of JavaScript, the no-break space among them. Each of the three views that can
  ask for a new task (the form of the task board, the form of the project detail view,
  the quick-capture modal) returns early on a blank title, so no handler is called: the
  store, with its task and activity collections, is the same afterwards and no remote
  call is issued. The guard rejects the blank titles and no others: on any other title
  each view makes its call.
\<close>

theorem blank_title_create_is_noop:
  "((\<forall>c \<in> set title. is_space c) \<longrightarrow>
      dispatch isLive clk out
        (TaskBoard_handleCreateTask hasCallback (form\<lparr>nt_title := title\<rparr>)) s = (s, [])
      \<and> dispatch isLive clk out
          (ProjectDetail_handleCreateTask project0 title priority0 assignee) s = (s, [])
      \<and> dispatch isLive clk out
          (TaskCaptureModal_handleSubmit title priority0 assignee projectId0) s = (s, []))
   \<and> ((TaskBoard_handleCreateTask True (form\<lparr>nt_title := title\<rparr>) = None)
        = (\<forall>c \<in> set title. is_space c))
   \<and> ((ProjectDetail_handleCreateTask project0 title priority0 assignee = None)
        = (\<forall>c \<in> set title. is_space c))
   \<and> ((TaskCaptureModal_handleSubmit title priority0 assignee projectId0 = None)
        = (\<forall>c \<in> set title. is_space c))
   \<and> is_space c0 = ((of_char c0 :: nat) \<in> set js_white_space)"
  by (simp add: trim_empty_iff TaskBoard_handleCreateTask_def
      ProjectDetail_handleCreateTask_def TaskCaptureModal_handleSubmit_def dispatch_def
      is_space_code_units)

text \<open>
  A no-break space, a tab and a space typed into the quick-capture modal; and a title
  with text in it, which is sent trimmed.
\<close>

theorem blank_title_create_is_noop_witness:
  "trim [CHR 0xA0, CHR 0x09, CHR 0x20] = []
   \<and> dispatch True sample_clock (Resolved None)
        (TaskCaptureModal_handleSubmit [CHR 0xA0, CHR 0x09, CHR 0x20] High ''tiger'' [])
        sample_store
      = (sample_store, [])
   \<and> TaskCaptureModal_handleSubmit ''  Draft Q1 report '' High ''tiger'' []
      = Some (CreateTask
          \<lparr> td_title = ''Draft Q1 report'', td_description = ''Draft Q1 report'',
            td_priority = High, td_assignedTo = ''tiger'', td_projectId = None,
            td_parentTaskId = None \<rparr>)"
proof -
  have h: "\<forall>c \<in> set [CHR 0xA0, CHR 0x09, CHR 0x20]. is_space c"
    by (simp add: is_space_def)
  from blank_title_create_is_noop [of "[CHR 0xA0, CHR 0x09, CHR 0x20]" True sample_clock
      "Resolved None" True
      "\<lparr>nt_title = [], nt_description = [], nt_priority = High, nt_assignedTo = ''tiger'',
        nt_projectId = []\<rparr>"
      sample_store sample_project High "''tiger''" "[]"] h
  have "dispatch True sample_clock (Resolved None)
        (TaskCaptureModal_handleSubmit [CHR 0xA0, CHR 0x09, CHR 0x20] High ''tiger'' [])
        sample_store
      = (sample_store, [])"
    by blast
  moreover have "trim [CHR 0xA0, CHR 0x09, CHR 0x20] = []"
    using h by (simp only: trim_empty_iff)
  moreover have "TaskCaptureModal_handleSubmit ''  Draft Q1 report '' High ''tiger'' []
      = Some (CreateTask
          \<lparr> td_title = ''Draft Q1 report'', td_description = ''Draft Q1 report'',
            td_priority = High, td_assignedTo = ''tiger'', td_projectId = None,
            td_parentTaskId = None \<rparr>)"
    by (simp add: TaskCaptureModal_handleSubmit_def trim_def is_space_def or_undefined_def)
  ultimately show ?thesis by blast
qed

text \<open>
  The guard is in the views only: \<^verbatim>\<open>handleCreateTask\<close> itself inserts whatever title it
  is given.
\<close>

lemma handleCreateTask_has_no_guard:
  "tasks (fst (run (handleCreateTask False s clk (td\<lparr>td_title := []\<rparr>)) out s))
     = tempTask s clk (td\<lparr>td_title := []\<rparr>) # tasks s"
  by (simp add: handleCreateTask_def Let_def live_create_def log_activity_def split_beta)


section \<open>Dropping a task on a column\<close>

text \<open>
  Claim C9. Take a task of the board such that the tasks sharing its id share its status
  (as they do when ids are distinct). Dropping it on the column of its own status calls
  no handler: the store, with its task and activity collections, is the same afterwards
  and nothing is issued. Whenever a drop does call a handler, the call is the status
  update to the target column, and a task with the dragged id has another status.
\<close>

theorem drop_on_own_column_is_noop:
  assumes "task \<in> set boardTasks"
    and "\<forall>u \<in> set boardTasks. t_id u = t_id task \<longrightarrow> t_status u = t_status task"
  shows "handleDrop boardTasks (t_id task) (t_status task) = None
       \<and> dispatch isLive clk out (handleDrop boardTasks (t_id task) (t_status task)) s = (s, [])
       \<and> (\<forall>taskId target a. handleDrop boardTasks taskId target = Some a \<longrightarrow>
            a = UpdateTaskStatus taskId target
            \<and> (\<exists>u \<in> set boardTasks. t_id u = taskId \<and> t_status u \<noteq> target))"
proof -
  have 1: "handleDrop boardTasks (t_id task) (t_status task) = None"
  proof (cases "find_task (t_id task) boardTasks")
    case None
    then show ?thesis by (simp add: handleDrop_def)
  next
    case (Some u)
    then have "u \<in> set boardTasks" and "t_id u = t_id task"
      by (auto simp: find_task_def find_Some_iff)
    with assms(2) have "t_status u = t_status task" by blast
    with Some show ?thesis by (simp add: handleDrop_def)
  qed
  have 3: "\<forall>taskId target a. handleDrop boardTasks taskId target = Some a \<longrightarrow>
            a = UpdateTaskStatus taskId target
            \<and> (\<exists>u \<in> set boardTasks. t_id u = taskId \<and> t_status u \<noteq> target)"
    by (auto simp: handleDrop_def find_task_def find_Some_iff split: if_splits option.splits)
  from 1 3 show ?thesis by (simp add: dispatch_def)
qed


text \<open>
  On the sample store: task \<open>t1\<close> is pending; dropped on the pending column nothing
  happens, dropped on the completed column the status update is requested.
\<close>

theorem drop_on_own_column_is_noop_witness:
  "sample_task \<in> set (tasks sample_store)
   \<and> handleDrop (tasks sample_store) (t_id sample_task) (t_status sample_task) = None
   \<and> dispatch True sample_clock (Resolved None)
        (handleDrop (tasks sample_store) (t_id sample_task) (t_status sample_task))
        sample_store = (sample_store, [])
   \<and> handleDrop (tasks sample_store) ''t1'' Completed
        = Some (UpdateTaskStatus ''t1'' Completed)"
proof -
  have h1: "sample_task \<in> set (tasks sample_store)"
    by (simp add: sample_store_def)
  have h2: "\<forall>u \<in> set (tasks sample_store).
      t_id u = t_id sample_task \<longrightarrow> t_status u = t_status sample_task"
    by (simp add: sample_store_def sample_task_def)
  note r = drop_on_own_column_is_noop [OF h1 h2, of True sample_clock "Resolved None"
      sample_store]
  have "handleDrop (tasks sample_store) ''t1'' Completed
        = Some (UpdateTaskStatus ''t1'' Completed)"
    by (simp add: handleDrop_def find_task_def sample_store_def sample_task_def)
  with h1 r show ?thesis by blast
qed

section \<open>The short code of a project\<close>

text \<open>
  The pattern \<^verbatim>\<open>/^PR\.(\w+)/\<close> matches a title of the form \<open>PR.\<close>, a non-empty run
  of word characters, and a rest that does not go on with a word character; the capture
  is that run. It does not match a title that does not start with \<open>PR.\<close> or has no word
  character right after it.
\<close>

lemma match_PR_code:
  assumes "code \<noteq> []" and "\<forall>c \<in> set code. is_word c" and "rest = [] \<or> \<not> is_word (hd rest)"
  shows "match_PR (''PR.'' @ code @ rest) = Some code"
proof -
  have "takeWhile is_word rest = []"
    using assms(3) by (cases rest) auto
  with assms(2) have "takeWhile is_word (code @ rest) = code"
    by (simp add: takeWhile_append2)
  with assms(1) show ?thesis by (simp add: match_PR_def)
qed

lemma match_PR_code_unfolded:
  assumes "code \<noteq> []" and "\<forall>c \<in> set code. is_word c" and "rest = [] \<or> \<not> is_word (hd rest)"
  shows "match_PR (CHR ''P'' # CHR ''R'' # CHR ''.'' # code @ rest) = Some code"
  using match_PR_code [OF assms] by simp

lemma match_PR_none:
  assumes "take 3 title \<noteq> ''PR.'' \<or> drop 3 title = [] \<or> \<not> is_word (hd (drop 3 title))"
  shows "match_PR title = None"
proof -
  have "take 3 title \<noteq> ''PR.'' \<or> takeWhile is_word (drop 3 title) = []"
    using assms by (cases "drop 3 title") auto
  then show ?thesis by (auto simp: match_PR_def)
qed

lemma createProject_start:
  "projects (fst (start (handleCreateProject isLive snap clk d) s)) =
     tempProject snap clk d # projects s"
  by (simp add: handleCreateProject_def Let_def split_beta fst_start_live_create)

text \<open>
  Claim C8, as the code has it. On a title \<open>PR.<CODE>...\<close> both \<^verbatim>\<open>mapProject\<close> and
  \<^verbatim>\<open>handleCreateProject\<close> give the captured code. On a title the pattern does not
  match, \<^verbatim>\<open>mapProject\<close> gives the first four characters as they are, and
  \<^verbatim>\<open>handleCreateProject\<close> gives the first four characters in upper case.
\<close>

theorem short_code_derivation:
  "(code \<noteq> [] \<and> (\<forall>c \<in> set code. is_word c) \<and> (rest = [] \<or> \<not> is_word (hd rest)) \<longrightarrow>
      shortCode (mapProject (p\<lparr>rp_title := ''PR.'' @ code @ rest\<rparr>) ds ts) = code
      \<and> shortCode (hd (projects (fst (start
           (handleCreateProject isLive snap clk (d\<lparr>pd_title := ''PR.'' @ code @ rest\<rparr>)) s))))
         = code)
   \<and> (take 3 title \<noteq> ''PR.'' \<or> drop 3 title = [] \<or> \<not> is_word (hd (drop 3 title)) \<longrightarrow>
      shortCode (mapProject (p\<lparr>rp_title := title\<rparr>) ds ts) = substring0 4 title
      \<and> shortCode (hd (projects (fst (start
           (handleCreateProject isLive snap clk (d\<lparr>pd_title := title\<rparr>)) s))))
         = toUpperCase (substring0 4 title))"
  by (simp add: match_PR_code_unfolded match_PR_none createProject_start mapProject_def
      tempProject_def Let_def)

text \<open>
  The claim as stated asks for both the upper-cased fallback and the short code \<open>Unti\<close>
  for the title \<open>Untitled Initiative\<close>. \<^verbatim>\<open>mapProject\<close> gives \<open>Unti\<close>, which is not
  the upper-cased prefix \<open>UNTI\<close>; \<^verbatim>\<open>handleCreateProject\<close> gives \<open>UNTI\<close>, which is
  not \<open>Unti\<close>.
\<close>

theorem short_code_fallback_counterexample:
  "shortCode (mapProject (sample_raw_project\<lparr>rp_title := ''Untitled Initiative''\<rparr>) [] [])
     = ''Unti''
   \<and> toUpperCase (substring0 4 ''Untitled Initiative'') = ''UNTI''
   \<and> shortCode (mapProject (sample_raw_project\<lparr>rp_title := ''Untitled Initiative''\<rparr>) [] [])
     \<noteq> toUpperCase (substring0 4 ''Untitled Initiative'')
   \<and> shortCode (hd (projects (fst (start (handleCreateProject True sample_store sample_clock
        (sample_project_data\<lparr>pd_title := ''Untitled Initiative''\<rparr>)) sample_store))))
     = ''UNTI''
   \<and> shortCode (hd (projects (fst (start (handleCreateProject True sample_store sample_clock
        (sample_project_data\<lparr>pd_title := ''Untitled Initiative''\<rparr>)) sample_store))))
     \<noteq> ''Unti''"
  by (simp add: createProject_start mapProject_def tempProject_def Let_def match_PR_def
      substring0_def toUpperCase_def upper_char_def sample_raw_project_def
      sample_project_data_def)

text \<open>The two titles of the scenario, through both paths.\<close>

theorem short_code_derivation_witness:
  "list_all is_word ''GRW''
   \<and> shortCode (mapProject (sample_raw_project\<lparr>rp_title := ''PR.GRW | Q1 Growth Push''\<rparr>) [] [])
       = ''GRW''
   \<and> shortCode (hd (projects (fst (start (handleCreateProject True sample_store sample_clock
        (sample_project_data\<lparr>pd_title := ''PR.GRW | Q1 Growth Push''\<rparr>)) sample_store))))
       = ''GRW''
   \<and> take 3 ''Untitled Initiative'' = ''Unt''
   \<and> shortCode (mapProject (sample_raw_project\<lparr>rp_title := ''Untitled Initiative''\<rparr>) [] [])
       = ''Unti''
   \<and> shortCode (hd (projects (fst (start (handleCreateProject True sample_store sample_clock
        (sample_project_data\<lparr>pd_title := ''Untitled Initiative''\<rparr>)) sample_store))))
       = ''UNTI''"
  using short_code_derivation [of "''GRW''" "'' | Q1 Growth Push''" sample_raw_project "[]" "[]"
      True sample_store sample_clock sample_project_data sample_store "''Untitled Initiative''"]
  by (simp add: is_word_def substring0_def toUpperCase_def upper_char_def)

section \<open>Goal progress\<close>

lemma in_set_mapD: "y \<in> set (map f xs) \<Longrightarrow> \<exists>x \<in> set xs. y = f x"
  by auto

lemma updateGoal_goals:
  "goals (fst (run (handleUpdateGoal isLive snap clk gid u) out s)) =
     map (\<lambda>g. if g_id g = gid then apply_goal_patch u g else g) (goals s)"
  by (simp add: handleUpdateGoal_def split_beta fst_run_live_call fst_run_log_activity
      split: option.split)

lemma progress_patch:
  "progress (apply_goal_patch (no_goal_patch\<lparr>gp_progress := Some n\<rparr>) g) = n"
  "g_id (apply_goal_patch (no_goal_patch\<lparr>gp_progress := Some n\<rparr>) g) = g_id g"
  by (simp_all add: apply_goal_patch_def no_goal_patch_def patch_field_def)

lemma onChangeProgress_range:
  "0 \<le> progressValue (onChangeProgress v st) \<and> progressValue (onChangeProgress v st) \<le> 100"
  by (simp add: onChangeProgress_def)

lemma parseInt_examples:
  "parseInt ''150'' = Some 150" "parseInt ''-5'' = Some (- 5)" "parseInt '''' = None"
  "parseInt ''12.7'' = Some 12" "parseInt ''abc'' = None"
  by (simp_all add: parseInt_def read_digits_def digit_value_def is_space_def Let_def)

text \<open>
  Claim C6, as the code has it. The clamp is in the \<^verbatim>\<open>onChange\<close> of the progress
  input of \<^verbatim>\<open>Strategy\<close>: whatever text is typed, the value held by the editor is
  between 0 and 100 (\<open>150\<close> gives 100, \<open>-5\<close> gives 0), and saving it stores that value
  in the goal. \<^verbatim>\<open>handleUpdateGoal\<close> itself stores the progress it is given.
\<close>

theorem typed_progress_is_clamped:
  "0 \<le> progressValue (onChangeProgress v st)
   \<and> progressValue (onChangeProgress v st) \<le> 100
   \<and> progressValue (onChangeProgress ''150'' st) = 100
   \<and> progressValue (onChangeProgress ''-5'' st) = 0
   \<and> (\<forall>g \<in> set (goals (fst (dispatch isLive clk out
            (fst (saveProgress gid (onChangeProgress v st))) s))).
          g_id g = gid \<longrightarrow> progress g = progressValue (onChangeProgress v st))
   \<and> (\<forall>g \<in> set (goals (fst (run (handleUpdateGoal isLive snap clk gid
            (no_goal_patch\<lparr>gp_progress := Some n\<rparr>)) out s))).
          g_id g = gid \<longrightarrow> progress g = n)"
proof -
  have 1: "0 \<le> progressValue (onChangeProgress v st)
      \<and> progressValue (onChangeProgress v st) \<le> 100"
    by (rule onChangeProgress_range)
  have 2: "progressValue (onChangeProgress ''150'' st) = 100
      \<and> progressValue (onChangeProgress ''-5'' st) = 0"
    by (simp add: onChangeProgress_def parseInt_examples)
  have 3: "\<forall>g \<in> set (goals (fst (run (handleUpdateGoal isLive snap clk gid
            (no_goal_patch\<lparr>gp_progress := Some n\<rparr>)) out s))).
          g_id g = gid \<longrightarrow> progress g = n" for snap n
  proof (intro ballI impI)
    fix g
    assume "g \<in> set (goals (fst (run (handleUpdateGoal isLive snap clk gid
            (no_goal_patch\<lparr>gp_progress := Some n\<rparr>)) out s)))"
    then obtain g0 where g: "g = (if g_id g0 = gid
        then apply_goal_patch (no_goal_patch\<lparr>gp_progress := Some n\<rparr>) g0 else g0)"
      unfolding updateGoal_goals by (blast dest: in_set_mapD)
    assume "g_id g = gid"
    with g have "g_id g0 = gid" by (cases "g_id g0 = gid") simp_all
    with g show "progress g = n" by (simp add: progress_patch)
  qed
  have 4: "\<forall>g \<in> set (goals (fst (dispatch isLive clk out
            (fst (saveProgress gid (onChangeProgress v st))) s))).
          g_id g = gid \<longrightarrow> progress g = progressValue (onChangeProgress v st)"
  proof -
    have "fst (dispatch isLive clk out (fst (saveProgress gid (onChangeProgress v st))) s)
        = fst (run (handleUpdateGoal isLive s clk gid
            (no_goal_patch\<lparr>gp_progress := Some (progressValue (onChangeProgress v st))\<rparr>))
            out s)"
      by (simp add: dispatch_def saveProgress_def)
    then show ?thesis
      using 3 [of s "progressValue (onChangeProgress v st)"] by (simp only:)
  qed
  from 1 2 3 4 show ?thesis by blast
qed


text \<open>On the sample store: \<open>150\<close> typed for goal \<open>g1\<close> and saved.\<close>

theorem typed_progress_is_clamped_witness:
  "map g_id (goals sample_store) = [''g1'']
   \<and> map progress (goals (fst (dispatch True sample_clock (Resolved None)
        (fst (saveProgress ''g1'' (onChangeProgress ''150''
           (startProgressEdit ''g1'' 40 \<lparr>editingProgress = None, progressValue = 0\<rparr>))))
        sample_store))) = [100]"
proof -
  note r = typed_progress_is_clamped [of "''150''"
      "startProgressEdit ''g1'' 40 \<lparr>editingProgress = None, progressValue = 0\<rparr>"
      True sample_clock "Resolved None" "''g1''" sample_store sample_store 150]
  have "progressValue (onChangeProgress ''150''
      (startProgressEdit ''g1'' 40 \<lparr>editingProgress = None, progressValue = 0\<rparr>)) = 100"
    using r by blast
  then show ?thesis
    by (simp add: dispatch_def saveProgress_def updateGoal_goals sample_store_def
        sample_goal_def apply_goal_patch_def no_goal_patch_def patch_field_def)
qed


text \<open>
  The claim as stated covers every path to the goal. \<^verbatim>\<open>handleUpdateGoal\<close> called with
  progress 150 or -5 stores 150 or -5. Such a value reaches it without being typed: a
  goal loaded with progress 150 (\<^verbatim>\<open>mapGoal\<close> passes it through) opens the editor on
  150, and saving sends 150.
\<close>

theorem progress_not_clamped_counterexample:
  "map progress (goals (fst (run (handleUpdateGoal True sample_store sample_clock ''g1''
       (no_goal_patch\<lparr>gp_progress := Some 150\<rparr>)) (Resolved None) sample_store))) = [150]
   \<and> map progress (goals (fst (run (handleUpdateGoal True sample_store sample_clock ''g1''
       (no_goal_patch\<lparr>gp_progress := Some (- 5)\<rparr>)) (Resolved None) sample_store))) = [- 5]
   \<and> progress (mapGoal sample_raw_goal []) = 150
   \<and> fst (saveProgress ''g9'' (startProgressEdit ''g9'' (progress (mapGoal sample_raw_goal []))
        \<lparr>editingProgress = None, progressValue = 0\<rparr>))
      = Some (UpdateGoal ''g9'' (no_goal_patch\<lparr>gp_progress := Some 150\<rparr>))"
  by (simp add: updateGoal_goals sample_store_def sample_goal_def apply_goal_patch_def
      no_goal_patch_def patch_field_def mapGoal_def sample_raw_goal_def saveProgress_def
      startProgressEdit_def Let_def)


section \<open>The activity entry of a mutation\<close>

lemma activity_createTask:
  "activity (fst (run (handleCreateTask isLive snap clk td) out s))
     = activity_entry clk ''Created task'' (td_title td) # activity s"
  by (simp add: handleCreateTask_def Let_def split_beta fst_run_live_create
      fst_run_log_activity split: outcome.split option.split)

lemma activity_createGoal:
  "activity (fst (run (handleCreateGoal isLive snap clk gd) out s))
     = activity_entry clk ''Created goal'' (gd_title gd) # activity s"
  by (simp add: handleCreateGoal_def Let_def split_beta fst_run_live_create
      fst_run_log_activity split: outcome.split option.split)

lemma activity_createProject:
  "activity (fst (run (handleCreateProject isLive snap clk pd) out s))
     = activity_entry clk ''Created project'' (pd_title pd) # activity s"
  by (simp add: handleCreateProject_def Let_def split_beta fst_run_live_create
      fst_run_log_activity split: outcome.split option.split)

lemma activity_createFeatureRequest:
  "activity (fst (run (handleCreateFeatureRequest isLive snap clk fd) out s))
     = activity_entry clk ''Captured idea'' (fd_title fd) # activity s"
  by (simp add: handleCreateFeatureRequest_def Let_def split_beta fst_run_live_create
      fst_run_log_activity split: outcome.split option.split)

lemma activity_task_handlers:
  assumes "find_task i (tasks snap) = Some t"
  shows "activity (fst (run (handleUpdateTaskStatus isLive snap clk i st) out s))
           = activity_entry clk
               (if st = Completed then ''Completed''
                else if st = In_progress then ''Started'' else ''Updated'')
               (t_title t) # activity s"
    and "activity (fst (run (handleUpdateTask isLive snap clk i u) out s))
           = activity_entry clk ''Updated task''
               (t_title t @ '': '' @ join '', '' (task_changes u)) # activity s"
    and "activity (fst (run (handleDeleteTask isLive snap clk i) out s))
           = activity_entry clk ''Deleted task'' (t_title t) # activity s"
  using assms
  by (simp_all add: handleUpdateTaskStatus_def handleUpdateTask_def handleDeleteTask_def
      Let_def split_beta fst_run_live_call fst_run_log_activity)

lemma activity_project_handlers:
  assumes "find_project j (projects snap) = Some p"
  shows "activity (fst (run (handleUpdateProject isLive snap clk j pu) out s))
           = activity_entry clk ''Updated project''
               (shortCode p @ '': '' @ join '', '' (project_changes pu)) # activity s"
    and "activity (fst (run (handleDeleteProject isLive snap clk j) out s))
           = activity_entry clk ''Deleted project'' (p_title p) # activity s"
  using assms
  by (simp_all add: handleUpdateProject_def handleDeleteProject_def
      Let_def split_beta fst_run_live_call fst_run_log_activity)

lemma activity_goal_handlers:
  assumes "find_goal k (goals snap) = Some g"
  shows "activity (fst (run (handleUpdateGoal isLive snap clk k gu) out s))
           = activity_entry clk ''Updated goal''
               ((case or_undefined (gp_title gu) of Some title \<Rightarrow> title | None \<Rightarrow> g_title g)
                @ '': '' @ join '', '' (goal_changes gu)) # activity s"
    and "activity (fst (run (handleDeleteGoal isLive snap clk k) out s))
           = activity_entry clk ''Deleted goal'' (g_title g) # activity s"
  using assms
  by (simp_all add: handleUpdateGoal_def handleDeleteGoal_def
      Let_def split_beta fst_run_live_call fst_run_log_activity)

lemma activity_silent_handlers:
  "activity (fst (run (handleUpdateFeatureRequest isLive snap clk f fu) out s)) = activity s"
  "activity (fst (run (handleDeleteFeatureRequest isLive snap clk f) out s)) = activity s"
  "activity (fst (run (handleUpdateAgent isLive snap clk ag au) out s)) = activity s"
  by (simp_all add: handleUpdateFeatureRequest_def handleDeleteFeatureRequest_def
      handleUpdateAgent_def fst_run_live_call split_beta)


lemma activity_spawn:
  "activity (fst (run (handleSpawnAgent isLive snap clk n e r d) out s))
     = spawn_entry clk n r # activity s"
  by (simp add: handleSpawnAgent_def spawn_locally_def split_beta
      split: outcome.split option.split)

lemma activity_pending:
  "activity (fst (start (handler True snap clk a) s)) = activity s"
  by (cases a)
    (simp_all add: handleUpdateTaskStatus_def handleUpdateTask_def handleCreateTask_def
      handleDeleteTask_def handleUpdateProject_def handleCreateProject_def
      handleDeleteProject_def handleUpdateGoal_def handleCreateGoal_def handleDeleteGoal_def
      handleCreateFeatureRequest_def handleUpdateFeatureRequest_def
      handleDeleteFeatureRequest_def handleUpdateAgent_def handleSpawnAgent_def
      live_call_def live_create_def Let_def split_beta)

text \<open>
  Claim C7, as the code has it. Once its handler has run to its end, live or not and
  whatever the remote call did, each create (task, goal, project, feature request) and
  the spawn of an agent has put exactly one new item in front of the activity collection.
  So have the status update, the update and the delete of a task, and the update and the
  delete of a project or a goal, when the handler finds the target in its snapshot; when
  it does not, they add none. For
  the three updates with several fields the detail is the title (the short code for a
  project), a colon, and the labels of the supplied fields joined by a comma and a space.
  The update and the delete of a feature request and the update of an agent add no item.
  Every item built is stamped \<open>Just now\<close>. Live, the item comes after the remote call has
  settled: while the call is pending, no handler has added anything to the activity
  collection.
\<close>

theorem activity_per_mutation:
  "activity (fst (run (handleCreateTask isLive snap clk td) out s))
     = activity_entry clk ''Created task'' (td_title td) # activity s
   \<and> activity (fst (run (handleCreateGoal isLive snap clk gd) out s))
     = activity_entry clk ''Created goal'' (gd_title gd) # activity s
   \<and> activity (fst (run (handleCreateProject isLive snap clk pd) out s))
     = activity_entry clk ''Created project'' (pd_title pd) # activity s
   \<and> activity (fst (run (handleCreateFeatureRequest isLive snap clk fd) out s))
     = activity_entry clk ''Captured idea'' (fd_title fd) # activity s
   \<and> activity (fst (run (handleSpawnAgent isLive snap clk nm em rl ds) out s))
     = spawn_entry clk nm rl # activity s
   \<and> (find_task i (tasks snap) = Some t \<longrightarrow>
        activity (fst (run (handleUpdateTaskStatus isLive snap clk i st) out s))
          = activity_entry clk
              (if st = Completed then ''Completed''
               else if st = In_progress then ''Started'' else ''Updated'')
              (t_title t) # activity s
        \<and> activity (fst (run (handleUpdateTask isLive snap clk i u) out s))
          = activity_entry clk ''Updated task''
              (t_title t @ '': '' @ join '', '' (task_changes u)) # activity s
        \<and> activity (fst (run (handleDeleteTask isLive snap clk i) out s))
          = activity_entry clk ''Deleted task'' (t_title t) # activity s)
   \<and> (find_project j (projects snap) = Some p \<longrightarrow>
        activity (fst (run (handleUpdateProject isLive snap clk j pu) out s))
          = activity_entry clk ''Updated project''
              (shortCode p @ '': '' @ join '', '' (project_changes pu)) # activity s
        \<and> activity (fst (run (handleDeleteProject isLive snap clk j) out s))
          = activity_entry clk ''Deleted project'' (p_title p) # activity s)
   \<and> (find_goal k (goals snap) = Some g \<longrightarrow>
        activity (fst (run (handleUpdateGoal isLive snap clk k gu) out s))
          = activity_entry clk ''Updated goal''
              ((case or_undefined (gp_title gu) of Some title \<Rightarrow> title | None \<Rightarrow> g_title g)
               @ '': '' @ join '', '' (goal_changes gu)) # activity s
        \<and> activity (fst (run (handleDeleteGoal isLive snap clk k) out s))
          = activity_entry clk ''Deleted goal'' (g_title g) # activity s)
   \<and> (find_task i (tasks snap) = None \<longrightarrow>
        activity (fst (run (handleUpdateTaskStatus isLive snap clk i st) out s)) = activity s
        \<and> activity (fst (run (handleUpdateTask isLive snap clk i u) out s)) = activity s
        \<and> activity (fst (run (handleDeleteTask isLive snap clk i) out s)) = activity s)
   \<and> (find_project j (projects snap) = None \<longrightarrow>
        activity (fst (run (handleUpdateProject isLive snap clk j pu) out s)) = activity s
        \<and> activity (fst (run (handleDeleteProject isLive snap clk j) out s)) = activity s)
   \<and> (find_goal k (goals snap) = None \<longrightarrow>
        activity (fst (run (handleUpdateGoal isLive snap clk k gu) out s)) = activity s
        \<and> activity (fst (run (handleDeleteGoal isLive snap clk k) out s)) = activity s)
   \<and> activity (fst (run (handleUpdateFeatureRequest isLive snap clk f fu) out s)) = activity s
   \<and> activity (fst (run (handleDeleteFeatureRequest isLive snap clk f) out s)) = activity s
   \<and> activity (fst (run (handleUpdateAgent isLive snap clk ag au) out s)) = activity s
   \<and> timestamp (activity_entry clk a d) = ''Just now''
   \<and> timestamp (spawn_entry clk nm rl) = ''Just now''
   \<and> activity (fst (start (handler True snap clk ua) s)) = activity s"
proof -
  have found:
    "(find_task i (tasks snap) = Some t \<longrightarrow>
        activity (fst (run (handleUpdateTaskStatus isLive snap clk i st) out s))
          = activity_entry clk
              (if st = Completed then ''Completed''
               else if st = In_progress then ''Started'' else ''Updated'')
              (t_title t) # activity s
        \<and> activity (fst (run (handleUpdateTask isLive snap clk i u) out s))
          = activity_entry clk ''Updated task''
              (t_title t @ '': '' @ join '', '' (task_changes u)) # activity s
        \<and> activity (fst (run (handleDeleteTask isLive snap clk i) out s))
          = activity_entry clk ''Deleted task'' (t_title t) # activity s)
     \<and> (find_project j (projects snap) = Some p \<longrightarrow>
        activity (fst (run (handleUpdateProject isLive snap clk j pu) out s))
          = activity_entry clk ''Updated project''
              (shortCode p @ '': '' @ join '', '' (project_changes pu)) # activity s
        \<and> activity (fst (run (handleDeleteProject isLive snap clk j) out s))
          = activity_entry clk ''Deleted project'' (p_title p) # activity s)
     \<and> (find_goal k (goals snap) = Some g \<longrightarrow>
        activity (fst (run (handleUpdateGoal isLive snap clk k gu) out s))
          = activity_entry clk ''Updated goal''
              ((case or_undefined (gp_title gu) of Some title \<Rightarrow> title | None \<Rightarrow> g_title g)
               @ '': '' @ join '', '' (goal_changes gu)) # activity s
        \<and> activity (fst (run (handleDeleteGoal isLive snap clk k) out s))
          = activity_entry clk ''Deleted goal'' (g_title g) # activity s)"
    by (intro conjI impI activity_task_handlers activity_project_handlers
        activity_goal_handlers)
  have stamps: "timestamp (activity_entry clk a d) = ''Just now''
      \<and> timestamp (spawn_entry clk nm rl) = ''Just now''"
    by (simp add: activity_entry_def spawn_entry_def)
  have missing:
    "(find_task i (tasks snap) = None \<longrightarrow>
        activity (fst (run (handleUpdateTaskStatus isLive snap clk i st) out s)) = activity s
        \<and> activity (fst (run (handleUpdateTask isLive snap clk i u) out s)) = activity s
        \<and> activity (fst (run (handleDeleteTask isLive snap clk i) out s)) = activity s)
     \<and> (find_project j (projects snap) = None \<longrightarrow>
        activity (fst (run (handleUpdateProject isLive snap clk j pu) out s)) = activity s
        \<and> activity (fst (run (handleDeleteProject isLive snap clk j) out s)) = activity s)
     \<and> (find_goal k (goals snap) = None \<longrightarrow>
        activity (fst (run (handleUpdateGoal isLive snap clk k gu) out s)) = activity s
        \<and> activity (fst (run (handleDeleteGoal isLive snap clk k) out s)) = activity s)"
    by (simp add: handleUpdateTaskStatus_def handleUpdateTask_def handleDeleteTask_def
        handleUpdateProject_def handleDeleteProject_def handleUpdateGoal_def
        handleDeleteGoal_def Let_def split_beta fst_run_live_call)
  from found stamps missing
  show ?thesis
    by (simp only: activity_createTask activity_createGoal activity_createProject
        activity_createFeatureRequest activity_spawn activity_silent_handlers
        activity_pending simp_thms)
      blast
qed

text \<open>
  On the sample store, live: title and priority of task \<open>t1\<close> updated in one call, with
  nothing in the activity collection while the call is pending and one item after it;
  and an agent spawned offline.
\<close>

theorem activity_per_mutation_witness:
  "find_task ''t1'' (tasks sample_store) = Some sample_task
   \<and> activity (fst (start (handleUpdateTask True sample_store sample_clock ''t1''
        (no_task_patch\<lparr>tp_title := Some ''Draft Q2 report'', tp_priority := Some Critical\<rparr>))
        sample_store)) = []
   \<and> activity (fst (run (handleUpdateTask True sample_store sample_clock ''t1''
        (no_task_patch\<lparr>tp_title := Some ''Draft Q2 report'', tp_priority := Some Critical\<rparr>))
        (Resolved None) sample_store))
     = [\<lparr> act_id = ''a1771146000180'', act_agent = ''Tiger'', agentEmoji = '':tiger:'',
          action = ''Updated task'',
          detail = ''Draft Q1 report: title, priority -> critical'',
          timestamp = ''Just now'', act_type = Task_activity \<rparr>]
   \<and> activity (fst (run (handleSpawnAgent False sample_store sample_clock ''Scout''
        '':mag:'' ''Researcher'' ''Finds sources'') (Resolved None) sample_store))
     = [\<lparr> act_id = ''a1771146000180'', act_agent = ''The CEA'', agentEmoji = '':brain:'',
          action = ''Spawned agent'',
          detail = ''Deployed '' @ [CHR 0x22] @ ''Scout'' @ [CHR 0x22] @ '' (Researcher)'',
          timestamp = ''Just now'', act_type = Spawn \<rparr>]"
proof -
  have h: "find_task ''t1'' (tasks sample_store) = Some sample_task"
    by (simp add: find_task_def sample_store_def sample_task_def)
  have later: "decimal (later_ms sample_clock) = ''1771146000180''"
    by (simp add: sample_clock_def decimal.simps)
  have empty: "activity sample_store = []"
    by (simp add: sample_store_def)
  note r = activity_per_mutation [where isLive = True and snap = sample_store
      and clk = sample_clock and out = "Resolved None" and s = sample_store
      and i = "''t1''" and t = sample_task
      and u = "no_task_patch\<lparr>tp_title := Some ''Draft Q2 report'',
                              tp_priority := Some Critical\<rparr>"
      and ua = "UpdateTask ''t1'' (no_task_patch\<lparr>tp_title := Some ''Draft Q2 report'',
                              tp_priority := Some Critical\<rparr>)"]
  have after: "activity (fst (run (handleUpdateTask True sample_store sample_clock
        ''t1'' (no_task_patch\<lparr>tp_title := Some ''Draft Q2 report'',
                              tp_priority := Some Critical\<rparr>))
        (Resolved None) sample_store))
      = activity_entry sample_clock ''Updated task''
          (t_title sample_task @ '': '' @ join '', '' (task_changes
             (no_task_patch\<lparr>tp_title := Some ''Draft Q2 report'',
                             tp_priority := Some Critical\<rparr>)))
        # activity sample_store"
    by (simp only: r h simp_thms)
  from r have pending: "activity (fst (start (handler True sample_store sample_clock
        (UpdateTask ''t1'' (no_task_patch\<lparr>tp_title := Some ''Draft Q2 report'',
                              tp_priority := Some Critical\<rparr>))) sample_store))
      = activity sample_store"
    by (simp only: r)
  have 1: "activity (fst (start (handleUpdateTask True sample_store sample_clock ''t1''
        (no_task_patch\<lparr>tp_title := Some ''Draft Q2 report'', tp_priority := Some Critical\<rparr>))
        sample_store)) = []"
    using pending by (simp add: empty)
  have 2: "activity (fst (run (handleUpdateTask True sample_store sample_clock ''t1''
        (no_task_patch\<lparr>tp_title := Some ''Draft Q2 report'', tp_priority := Some Critical\<rparr>))
        (Resolved None) sample_store))
     = [\<lparr> act_id = ''a1771146000180'', act_agent = ''Tiger'', agentEmoji = '':tiger:'',
          action = ''Updated task'',
          detail = ''Draft Q1 report: title, priority -> critical'',
          timestamp = ''Just now'', act_type = Task_activity \<rparr>]"
    unfolding after
    by (simp add: activity_entry_def later empty task_changes_def no_task_patch_def
        truthy_def defined_def sample_task_def)
  have 3: "activity (fst (run (handleSpawnAgent False sample_store sample_clock ''Scout''
        '':mag:'' ''Researcher'' ''Finds sources'') (Resolved None) sample_store))
     = [\<lparr> act_id = ''a1771146000180'', act_agent = ''The CEA'', agentEmoji = '':brain:'',
          action = ''Spawned agent'',
          detail = ''Deployed '' @ [CHR 0x22] @ ''Scout'' @ [CHR 0x22] @ '' (Researcher)'',
          timestamp = ''Just now'', act_type = Spawn \<rparr>]"
    by (simp add: activity_spawn spawn_entry_def later empty)
  from h 1 2 3 show ?thesis by blast
qed

text \<open>
  The claim as stated includes feature requests and agent profile updates. On the sample
  store, setting the status of idea \<open>f1\<close> to done, deleting it, and deactivating agent
  \<open>ag1\<close> each change their collection and leave the activity collection empty.
\<close>

theorem silent_mutation_counterexample:
  "map fr_status (featureRequests sample_store) = [''new'']
   \<and> map fr_status (featureRequests (fst (run (handleUpdateFeatureRequest True sample_store
        sample_clock ''f1''
        \<lparr>fu_status = Some ''done'', fu_priority = None, fu_title = None, fu_description = None\<rparr>)
        (Resolved None) sample_store))) = [''done'']
   \<and> activity (fst (run (handleUpdateFeatureRequest True sample_store
        sample_clock ''f1''
        \<lparr>fu_status = Some ''done'', fu_priority = None, fu_title = None, fu_description = None\<rparr>)
        (Resolved None) sample_store)) = []
   \<and> featureRequests (fst (run (handleDeleteFeatureRequest True sample_store sample_clock
        ''f1'') (Resolved None) sample_store)) = []
   \<and> activity (fst (run (handleDeleteFeatureRequest True sample_store sample_clock
        ''f1'') (Resolved None) sample_store)) = []
   \<and> map a_status (agents (fst (run (handleUpdateAgent True sample_store sample_clock ''ag1''
        \<lparr>au_system_prompt = None, au_functional_name = None, au_tool_access = None,
          au_is_active = Some False\<rparr>) (Resolved None) sample_store))) = [Idle]
   \<and> activity (fst (run (handleUpdateAgent True sample_store sample_clock ''ag1''
        \<lparr>au_system_prompt = None, au_functional_name = None, au_tool_access = None,
          au_is_active = Some False\<rparr>) (Resolved None) sample_store)) = []"
  by (simp add: handleUpdateFeatureRequest_def handleDeleteFeatureRequest_def
      handleUpdateAgent_def fst_run_live_call split_beta sample_store_def
      sample_feature_request_def sample_agent_def apply_fr_updates_def patch_field_def
      apply_agent_updates_def or_undefined_def Let_def)


section \<open>Reconciling a temporary id\<close>

lemma start_live_create:
  "start (live_create True r reconcile rest) s =
     (s, [Issued r], Waiting r (\<lambda>out.
             case out of
               Resolved None \<Rightarrow> rest
             | Resolved (Some row) \<Rightarrow> Do (reconcile row) rest
             | Rejected \<Rightarrow> ConsoleError rest))"
  by (simp add: live_create_def)

lemma resume_create:
  "fst (resume (snd (snd (start (Do u (live_create True r reconcile rest)) s0)))
         (Resolved (Some row)) s2)
     = fst (run rest (Resolved (Some row)) (apply_update (reconcile row) s2))"
  by (simp add: start_live_create resume_def split_beta)

lemma temp_entity_ids:
  "t_id (tempTask snap clk td) = temp_id clk"
  "g_id (tempGoal snap clk gd) = temp_id clk"
  "p_id (tempProject snap clk pd) = temp_id clk"
  "fr_id (tempFr clk fd) = temp_id clk"
  by (simp_all add: tempTask_def tempGoal_def tempProject_def tempFr_def Let_def)

lemma reconcile_task:
  "tasks (fst (resume (snd (snd (start (handleCreateTask True snap clk td) s0)))
            (Resolved (Some row)) s2))
     = map (\<lambda>t. if t_id t = temp_id clk then (tempTask snap clk td)\<lparr>t_id := row_id row\<rparr>
               else t) (tasks s2)"
  by (simp only: handleCreateTask_def Let_def resume_create)
    (simp add: fst_run_log_activity temp_entity_ids)

lemma reconcile_goal:
  "goals (fst (resume (snd (snd (start (handleCreateGoal True snap clk gd) s0)))
            (Resolved (Some row)) s2))
     = map (\<lambda>g. if g_id g = temp_id clk then (tempGoal snap clk gd)\<lparr>g_id := row_id row\<rparr>
               else g) (goals s2)"
  by (simp only: handleCreateGoal_def Let_def resume_create)
    (simp add: fst_run_log_activity temp_entity_ids)

lemma reconcile_project:
  "projects (fst (resume (snd (snd (start (handleCreateProject True snap clk pd) s0)))
            (Resolved (Some row)) s2))
     = map (\<lambda>p. if p_id p = temp_id clk then (tempProject snap clk pd)\<lparr>p_id := row_id row\<rparr>
               else p) (projects s2)"
  by (simp only: handleCreateProject_def Let_def resume_create)
    (simp add: fst_run_log_activity temp_entity_ids)

lemma reconcile_feature_request:
  "featureRequests (fst (resume
        (snd (snd (start (handleCreateFeatureRequest True snap clk fd) s0)))
        (Resolved (Some row)) s2))
     = map (\<lambda>fr. if fr_id fr = temp_id clk
                then (tempFr clk fd)\<lparr>fr_id := row_id row, fr_createdAt := row_created_at row,
                                      fr_updatedAt := row_updated_at row\<rparr>
                else fr) (featureRequests s2)"
  by (simp only: handleCreateFeatureRequest_def Let_def resume_create)
    (simp add: fst_run_log_activity temp_entity_ids)

text \<open>
  Claim C1, as the code has it. A create is started on a store \<open>s0\<close> and its call
  resolves with a row when the store has become \<open>s2\<close>. Reconciliation then replaces
  every entity of \<open>s2\<close> that carries the temporary id by the entity as it was built when
  the create started, with the id of the row (for a feature request also with the
  creation and update stamps of the row), and leaves the entities with other ids as they
  are. The entity is copied from the handler's closure, not from \<open>s2\<close>: an entity that
  was not edited in between changes in its id only, and edits made in between are gone.
\<close>

theorem reconcile_restores_created_entity:
  "tasks (fst (resume (snd (snd (start (handleCreateTask True snap clk td) s0)))
            (Resolved (Some row)) s2))
     = map (\<lambda>t. if t_id t = temp_id clk then (tempTask snap clk td)\<lparr>t_id := row_id row\<rparr>
               else t) (tasks s2)
   \<and> goals (fst (resume (snd (snd (start (handleCreateGoal True snap clk gd) s0)))
            (Resolved (Some row)) s2))
     = map (\<lambda>g. if g_id g = temp_id clk then (tempGoal snap clk gd)\<lparr>g_id := row_id row\<rparr>
               else g) (goals s2)
   \<and> projects (fst (resume (snd (snd (start (handleCreateProject True snap clk pd) s0)))
            (Resolved (Some row)) s2))
     = map (\<lambda>p. if p_id p = temp_id clk then (tempProject snap clk pd)\<lparr>p_id := row_id row\<rparr>
               else p) (projects s2)
   \<and> featureRequests (fst (resume
        (snd (snd (start (handleCreateFeatureRequest True snap clk fd) s0)))
        (Resolved (Some row)) s2))
     = map (\<lambda>fr. if fr_id fr = temp_id clk
                then (tempFr clk fd)\<lparr>fr_id := row_id row, fr_createdAt := row_created_at row,
                                      fr_updatedAt := row_updated_at row\<rparr>
                else fr) (featureRequests s2)"
  by (intro conjI reconcile_task reconcile_goal reconcile_project reconcile_feature_request)

text \<open>
  The claim as stated keeps the edits made after the create. In the sample scenario the
  title of the new task is edited while the create call is pending; after reconciliation
  the task has the remote id and its first title again.
\<close>

lemma race_tasks:
  "tasks (fst race_created) = tempTask sample_store sample_clock sample_task_data # tasks sample_store"
  by (simp add: race_created_def handleCreateTask_def Let_def split_beta start_live_create)

lemma race_edited_tasks:
  "tasks race_edited =
     (tempTask sample_store sample_clock sample_task_data)
       \<lparr>t_title := ''Write launch post (draft 2)''\<rparr> # tasks sample_store"
  by (simp add: race_edited_def race_tasks handleUpdateTask_def live_call_def split_beta
      temp_entity_ids temp_id_def sample_store_def sample_task_def apply_task_patch_def
      no_task_patch_def patch_field_def tempTask_def Let_def)

lemma race_reconciled_tasks:
  "tasks race_reconciled =
     (tempTask sample_store sample_clock sample_task_data)\<lparr>t_id := ''task-77''\<rparr>
       # tasks sample_store"
  by (simp add: race_reconciled_def race_created_def reconcile_task race_edited_tasks
      temp_entity_ids temp_id_def sample_store_def sample_task_def sample_row_def)

theorem edit_lost_on_reconcile_counterexample:
  "map t_id (tasks race_edited) = [temp_id sample_clock, ''t1'', ''t2'']
   \<and> map t_title (tasks race_edited)
       = [''Write launch post (draft 2)'', ''Draft Q1 report'', ''Review budget'']
   \<and> map t_id (tasks race_reconciled) = [''task-77'', ''t1'', ''t2'']
   \<and> map t_title (tasks race_reconciled)
       = [''Write launch post'', ''Draft Q1 report'', ''Review budget'']
   \<and> hd (tasks race_reconciled) \<noteq> (hd (tasks race_edited))\<lparr>t_id := ''task-77''\<rparr>"
  by (simp add: race_edited_tasks race_reconciled_tasks tempTask_def Let_def
      sample_task_data_def sample_store_def sample_task_def)


section \<open>The order of commit, remote call and activity entry\<close>

lemmas trace_simps = snd_run_Do snd_run_live_call snd_run_live_create snd_run_log_activity
  before_settled_def split_beta Let_def

lemma updateTaskStatus_tasks:
  "tasks (fst (run (handleUpdateTaskStatus isLive snap clk i st) out s))
     = map (\<lambda>t. if t_id t = i then t\<lparr>t_status := st\<rparr> else t) (tasks s)"
  by (simp add: handleUpdateTaskStatus_def fst_run_live_call fst_run_log_activity split_beta
      split: option.split)

text \<open>
  Claim C2, as the code has it. Take any action but the task status update, the agent
  update and the agent spawn. Live, the first step of its handler is the setter of the action's collection;
  exactly one gateway call is issued, after it, and it settles; no activity item is
  appended before the call has settled. Offline, the handler starts with the same setter
  and issues no call. A task status update stores the new status whatever the call
  settles to, live or not.
\<close>

theorem commit_precedes_call:
  assumes "commits_first a"
  shows "hd (snd (run (handler True snap clk a) out s)) = Commit (target_collection a)
       \<and> length (filter is_issued (snd (run (handler True snap clk a) out s))) = 1
       \<and> Settled out \<in> set (snd (run (handler True snap clk a) out s))
       \<and> Commit Activity \<notin> set (before_settled (snd (run (handler True snap clk a) out s)))
       \<and> hd (snd (run (handler False snap clk a) out s)) = Commit (target_collection a)
       \<and> filter is_issued (snd (run (handler False snap clk a) out s)) = []
       \<and> tasks (fst (run (handleUpdateTaskStatus isLive snap clk i st) out s))
           = map (\<lambda>t. if t_id t = i then t\<lparr>t_status := st\<rparr> else t) (tasks s)"
proof (cases a)
  case (UpdateTaskStatus x1 x2)
  with assms show ?thesis by simp
next
  case (UpdateTask x1 x2)
  then show ?thesis
    by (simp add: updateTaskStatus_tasks handleUpdateTask_def trace_simps split: option.split)
next
  case (CreateTask x)
  then show ?thesis
    by (simp add: updateTaskStatus_tasks handleCreateTask_def trace_simps
        split: option.split outcome.split)
next
  case (DeleteTask x)
  then show ?thesis
    by (simp add: updateTaskStatus_tasks handleDeleteTask_def trace_simps split: option.split)
next
  case (UpdateProject x1 x2)
  then show ?thesis
    by (simp add: updateTaskStatus_tasks handleUpdateProject_def trace_simps
        split: option.split)
next
  case (CreateProject x)
  then show ?thesis
    by (simp add: updateTaskStatus_tasks handleCreateProject_def trace_simps
        split: option.split outcome.split)
next
  case (DeleteProject x)
  then show ?thesis
    by (simp add: updateTaskStatus_tasks handleDeleteProject_def trace_simps
        split: option.split)
next
  case (UpdateGoal x1 x2)
  then show ?thesis
    by (simp add: updateTaskStatus_tasks handleUpdateGoal_def trace_simps split: option.split)
next
  case (CreateGoal x)
  then show ?thesis
    by (simp add: updateTaskStatus_tasks handleCreateGoal_def trace_simps
        split: option.split outcome.split)
next
  case (DeleteGoal x)
  then show ?thesis
    by (simp add: updateTaskStatus_tasks handleDeleteGoal_def trace_simps split: option.split)
next
  case (CreateFeatureRequest x)
  then show ?thesis
    by (simp add: updateTaskStatus_tasks handleCreateFeatureRequest_def trace_simps
        split: option.split outcome.split)
next
  case (UpdateFeatureRequest x1 x2)
  then show ?thesis
    by (simp add: updateTaskStatus_tasks handleUpdateFeatureRequest_def trace_simps)
next
  case (DeleteFeatureRequest x)
  then show ?thesis
    by (simp add: updateTaskStatus_tasks handleDeleteFeatureRequest_def trace_simps)
next
  case (UpdateAgent x1 x2)
  with assms show ?thesis by simp
next
  case (SpawnAgent x1 x2 x3 x4)
  with assms show ?thesis by simp
qed


text \<open>Creating a task on the sample store, live and offline.\<close>

theorem commit_precedes_call_witness:
  "commits_first (CreateTask sample_task_data)
   \<and> snd (run (handler True sample_store sample_clock (CreateTask sample_task_data))
        (Resolved None) sample_store)
      = [Commit Tasks,
         Issued (Api_createTask ''Write launch post'' 3 None None None),
         Settled (Resolved None),
         Commit Activity]
   \<and> snd (run (handler False sample_store sample_clock (CreateTask sample_task_data))
        (Resolved None) sample_store)
      = [Commit Tasks, Commit Activity]"
proof -
  have h: "commits_first (CreateTask sample_task_data)" by simp
  note r = commit_precedes_call [OF h, of sample_store sample_clock "Resolved None"
      sample_store True "''t1''" In_progress]
  have "snd (run (handler True sample_store sample_clock (CreateTask sample_task_data))
        (Resolved None) sample_store)
      = [Commit Tasks,
         Issued (Api_createTask ''Write launch post'' 3 None None None),
         Settled (Resolved None),
         Commit Activity]"
    using r by (simp add: handleCreateTask_def trace_simps sample_task_data_def)
  moreover have "snd (run (handler False sample_store sample_clock
        (CreateTask sample_task_data)) (Resolved None) sample_store)
      = [Commit Tasks, Commit Activity]"
    by (simp add: handleCreateTask_def trace_simps)
  ultimately show ?thesis using h by blast
qed


text \<open>
  The claim as stated puts the commit and the activity entry before the call. A live
  status update issues the call first: the store still holds the old status when the call
  goes out, and the new one is set once the call has settled. A live task create commits
  the task first, and appends the activity entry only after the call has settled.
\<close>

theorem call_before_commit_counterexample:
  "snd (run (handleUpdateTaskStatus True sample_store sample_clock ''t1'' In_progress)
        (Resolved None) sample_store)
     = [Issued (Api_updateTaskStatus ''t1'' ''in_progress''),
        Settled (Resolved None),
        Commit Tasks,
        Commit Activity]
   \<and> map t_status (tasks (fst (start
        (handleUpdateTaskStatus True sample_store sample_clock ''t1'' In_progress)
        sample_store))) = [Pending, Review]
   \<and> map t_status (tasks (fst (run
        (handleUpdateTaskStatus True sample_store sample_clock ''t1'' In_progress)
        (Resolved None) sample_store))) = [In_progress, Review]
   \<and> snd (run (handleCreateTask True sample_store sample_clock sample_task_data)
        (Resolved None) sample_store)
     = [Commit Tasks,
        Issued (Api_createTask ''Write launch post'' 3 None None None),
        Settled (Resolved None),
        Commit Activity]
   \<and> activity (fst (start (handleCreateTask True sample_store sample_clock sample_task_data)
        sample_store)) = []"
proof -
  have 1: "snd (run (handleUpdateTaskStatus True sample_store sample_clock ''t1'' In_progress)
        (Resolved None) sample_store)
     = [Issued (Api_updateTaskStatus ''t1'' ''in_progress''),
        Settled (Resolved None),
        Commit Tasks,
        Commit Activity]"
    by (simp add: handleUpdateTaskStatus_def trace_simps remoteStatus_simps find_task_def
        sample_store_def sample_task_def)
  have 2: "map t_status (tasks (fst (start
        (handleUpdateTaskStatus True sample_store sample_clock ''t1'' In_progress)
        sample_store))) = [Pending, Review]"
    by (simp add: handleUpdateTaskStatus_def live_call_def sample_store_def sample_task_def)
  have 3: "map t_status (tasks (fst (run
        (handleUpdateTaskStatus True sample_store sample_clock ''t1'' In_progress)
        (Resolved None) sample_store))) = [In_progress, Review]"
    by (simp add: updateTaskStatus_tasks sample_store_def sample_task_def)
  have 4: "snd (run (handleCreateTask True sample_store sample_clock sample_task_data)
        (Resolved None) sample_store)
     = [Commit Tasks,
        Issued (Api_createTask ''Write launch post'' 3 None None None),
        Settled (Resolved None),
        Commit Activity]"
    by (simp add: handleCreateTask_def trace_simps sample_task_data_def)
  have 5: "activity (fst (start (handleCreateTask True sample_store sample_clock
        sample_task_data) sample_store)) = []"
    by (simp add: handleCreateTask_def Let_def split_beta fst_start_live_create
        sample_store_def)
  from 1 2 3 4 5 show ?thesis by blast
qed


end
